theory Spec2Isabelle
  imports Complex_Main
begin

section \<open>The route-tracker backend (backend/server.py)\<close>

text \<open>
  A shallow embedding of the FastAPI service in \<^verbatim>\<open>backend/server.py\<close>: the
  authentication handlers (register, login, app-login, me) and the three proxy
  handlers (users, location, history) with their mock and fallback paths.

  What a handler reads from outside the process is an explicit input: the clock,
  the answer of the upstream HTTP call, the random draws, the fresh uuid and salt.
  What it mutates (the users collection, the \<^verbatim>\<open>location_state\<close> table) is
  passed in and returned. A raised exception is the \<open>Inl\<close> branch of a sum.
  Calls to \<^verbatim>\<open>logging\<close> are left out: no handler reads the log back.
\<close>

subsection \<open>Values and exceptions\<close>

text \<open>
  An instant is a POSIX timestamp in seconds with its fraction, as
  \<^verbatim>\<open>datetime.now(timezone.utc)\<close> gives it; one request reads one instant. A Python
  float is the real number it denotes; the rounding of a float literal and of each float
  operation is the function \<open>fl\<close> of the library record below.
\<close>

type_synonym time = real

datatype json =
    JNull
  | JBool bool
  | JInt int
  | JFloat real
  | JStr string
  | JArr "json list"
  | JObj "(string \<times> json) list"

datatype exn =
    HTTPException nat string
  | TimeoutException
  | ConnectError
  | JSONDecodeError
  | AttributeError
  | TypeError
  | KeyError
  | IndexError
  | ValidationError
  | RequestValidationError
  | ExpiredSignatureError
  | InvalidTokenError

text \<open>Python truth value of a decoded JSON value (\<^verbatim>\<open>if x:\<close>, \<^verbatim>\<open>x and y\<close>, \<^verbatim>\<open>x or y\<close>).\<close>

fun truthy :: "json \<Rightarrow> bool" where
  "truthy JNull = False"
| "truthy (JBool b) = b"
| "truthy (JInt i) = (i \<noteq> 0)"
| "truthy (JFloat r) = (r \<noteq> 0)"
| "truthy (JStr s) = (s \<noteq> [])"
| "truthy (JArr xs) = (xs \<noteq> [])"
| "truthy (JObj kvs) = (kvs \<noteq> [])"

text \<open>
  \<^verbatim>\<open>d.get(k)\<close>: only a dict has \<^verbatim>\<open>get\<close>; on a dict an absent key gives
  \<open>None\<close> here, which the caller turns into Python's \<^verbatim>\<open>None\<close> or into the
  default it passed.
\<close>

fun py_get :: "json \<Rightarrow> string \<Rightarrow> exn + json option" where
  "py_get (JObj kvs) k = Inr (map_of kvs k)"
| "py_get _ k = Inl AttributeError"

definition or_None :: "json option \<Rightarrow> json" where
  "or_None v = (case v of None \<Rightarrow> JNull | Some j \<Rightarrow> j)"

definition or_default :: "json option \<Rightarrow> json \<Rightarrow> json" where
  "or_default v d = (case v of None \<Rightarrow> d | Some j \<Rightarrow> j)"

definition py_or :: "json \<Rightarrow> json \<Rightarrow> json" where
  "py_or a b = (if truthy a then a else b)"

text \<open>\<^verbatim>\<open>for x in v\<close>: a list yields its elements, a dict its keys, a string its characters.\<close>

fun py_iter :: "json \<Rightarrow> exn + json list" where
  "py_iter (JArr xs) = Inr xs"
| "py_iter (JObj kvs) = Inr (map (\<lambda>kv. JStr (fst kv)) kvs)"
| "py_iter (JStr s) = Inr (map (\<lambda>c. JStr [c]) s)"
| "py_iter _ = Inl TypeError"

text \<open>\<^verbatim>\<open>len(v)\<close> and \<^verbatim>\<open>v[0]\<close>.\<close>

fun py_len :: "json \<Rightarrow> exn + nat" where
  "py_len (JArr xs) = Inr (length xs)"
| "py_len (JObj kvs) = Inr (length kvs)"
| "py_len (JStr s) = Inr (length s)"
| "py_len _ = Inl TypeError"

fun py_first :: "json \<Rightarrow> exn + json" where
  "py_first (JArr (x # xs)) = Inr x"
| "py_first (JArr []) = Inl IndexError"
| "py_first (JStr (c # s)) = Inr (JStr [c])"
| "py_first (JStr []) = Inl IndexError"
| "py_first (JObj kvs) = Inl KeyError"
| "py_first _ = Inl TypeError"

text \<open>Running a fallible step over a list stops at the first exception, as a loop body that raises does.\<close>

fun each :: "('a \<Rightarrow> exn + 'b) \<Rightarrow> 'a list \<Rightarrow> exn + 'b list" where
  "each f [] = Inr []"
| "each f (x # xs) =
     (case f x of
        Inl e \<Rightarrow> Inl e
      | Inr y \<Rightarrow> (case each f xs of Inl e \<Rightarrow> Inl e | Inr ys \<Rightarrow> Inr (y # ys)))"

subsection \<open>Library functions and the outside world\<close>

text \<open>
  Functions of the Python runtime and of the libraries the handlers call are parameters:
  \<^verbatim>\<open>str(v)\<close>, pydantic's coercion of a value to \<^verbatim>\<open>float\<close>,
  \<^verbatim>\<open>datetime.strptime(s, '%Y-%m-%d %H:%M:%S')\<close> (\<open>None\<close> when it raises),
  \<^verbatim>\<open>datetime.isoformat\<close>, \<^verbatim>\<open>bcrypt.hashpw\<close> (password, salt),
  \<^verbatim>\<open>bcrypt.checkpw\<close>, the rounding \<open>fl\<close> of a real number to the nearest double, the
  validation of an \<^verbatim>\<open>EmailStr\<close> (the normalised address, or \<open>None\<close> when the string
  is refused), and whether the installed FastAPI answers 401 rather than 403 when
  \<^verbatim>\<open>HTTPBearer()\<close> finds no bearer credentials (older releases answer 403).
\<close>

record lib =
  py_str :: "json \<Rightarrow> string"
  to_float :: "json \<Rightarrow> real option"
  strptime :: "string \<Rightarrow> time option"
  isoformat :: "time \<Rightarrow> string"
  hashpw :: "string \<Rightarrow> string \<Rightarrow> string"
  checkpw :: "string \<Rightarrow> string \<Rightarrow> bool"
  fl :: "real \<Rightarrow> real"
  EmailStr :: "string \<Rightarrow> string option"
  HTTPBearer_401 :: bool

text \<open>Float arithmetic: the exact result, rounded. A float literal is the rounded decimal.\<close>

definition fadd :: "lib \<Rightarrow> real \<Rightarrow> real \<Rightarrow> real" where
  "fadd L x y = fl L (x + y)"

definition fsub :: "lib \<Rightarrow> real \<Rightarrow> real \<Rightarrow> real" where
  "fsub L x y = fl L (x - y)"

definition fmul :: "lib \<Rightarrow> real \<Rightarrow> real \<Rightarrow> real" where
  "fmul L x y = fl L (x * y)"

definition lit :: "lib \<Rightarrow> real \<Rightarrow> real" where
  "lit L x = fl L x"

text \<open>
  An address without an \<^verbatim>\<open>@\<close> is refused by every release of the validator; what it
  makes of any other string is the library's.
\<close>

definition validate_email :: "lib \<Rightarrow> string \<Rightarrow> string option" where
  "validate_email L s = (if CHR ''@'' \<notin> set s then None else EmailStr L s)"

text \<open>The outcome of one \<^verbatim>\<open>httpx\<close> request: a timeout, another transport failure, or a
  response with its status code and its body (\<open>None\<close> when the body is not JSON).\<close>

datatype http_result = Timeout | NetworkError | Response nat "json option"

text \<open>
  What one request reads from outside: the clock, the upstream answer, the successive
  values of \<^verbatim>\<open>random.random()\<close> (each a double in \<open>[0, 1)\<close>), the uuid and the salt
  drawn.
\<close>

record world =
  now :: time
  upstream :: http_result
  random_random :: "nat \<Rightarrow> real"
  uuid4 :: string
  gensalt :: string

definition httpx_request :: "http_result \<Rightarrow> exn + nat \<times> json option" where
  "httpx_request r =
     (case r of
        Timeout \<Rightarrow> Inl TimeoutException
      | NetworkError \<Rightarrow> Inl ConnectError
      | Response code body \<Rightarrow> Inr (code, body))"

definition response_json :: "json option \<Rightarrow> exn + json" where
  "response_json body = (case body of None \<Rightarrow> Inl JSONDecodeError | Some j \<Rightarrow> Inr j)"

text \<open>\<^verbatim>\<open>random.uniform(a, b)\<close> is \<^verbatim>\<open>a + (b - a) * random()\<close>, in floats; \<open>u\<close> is the value
  of \<^verbatim>\<open>random()\<close>.\<close>

definition uniform :: "lib \<Rightarrow> real \<Rightarrow> real \<Rightarrow> real \<Rightarrow> real" where
  "uniform L a b u = fadd L a (fmul L (fsub L b a) u)"

subsection \<open>Models and module state\<close>

record User =
  User_id :: string
  User_username :: string
  User_email :: string
  User_created_at :: time

record UserCreate =
  UserCreate_username :: string
  UserCreate_email :: string
  UserCreate_password :: string

record UserLogin =
  UserLogin_username :: string
  UserLogin_password :: string

record AppLoginRequest =
  AppLoginRequest_email :: string
  AppLoginRequest_password :: string

record AppLoginResponse =
  authenticated :: bool
  user_id :: "string option"
  message :: "string option"

text \<open>
  A JSON Web Token, symbolically: the claims and the key that signed them, or a string
  that is no token at all. The dict the service hands to \<^verbatim>\<open>jwt.encode\<close> has a subject
  and a \<^verbatim>\<open>datetime\<close> as expiry; in the token the expiry is a whole number of seconds.
\<close>

record payload =
  payload_sub :: "string option"
  payload_exp :: "time option"

record claims =
  claim_sub :: "string option"
  claim_exp :: "int option"

datatype jwt = Signed claims string | Garbage string

record Token =
  access_token :: jwt
  token_type :: string
  user :: User

record RouteData =
  RouteData_id :: string
  RouteData_name :: string
  RouteData_description :: string
  RouteData_coordinates :: "json list"
  RouteData_distance :: real
  RouteData_estimated_time :: int

record TrackableUser =
  TrackableUser_id :: string
  TrackableUser_name :: string
  TrackableUser_status :: string

record LocationData =
  LocationData_user_id :: string
  lat :: real
  lng :: real
  timestamp :: time
  speed :: "real option"
  heading :: "real option"

record RouteHistory =
  RouteHistory_user_id :: string
  coordinates :: "json list"
  timestamps :: "string list"

text \<open>A document of the \<^verbatim>\<open>users\<close> collection as \<^verbatim>\<open>register\<close> writes it: the dumped
  User and the password hash.\<close>

record user_doc =
  doc_id :: string
  doc_username :: string
  doc_email :: string
  doc_created_at :: time
  doc_password :: string

text \<open>An entry of \<^verbatim>\<open>location_state\<close>.\<close>

record position =
  pos_lat :: real
  pos_lng :: real
  pos_heading :: real

text \<open>
  The module's globals and the environment variables the handlers read. \<open>db\<close> is
  \<open>None\<close> when the module set \<^verbatim>\<open>db = None\<close>, else the documents of \<^verbatim>\<open>db.users\<close>
  in insertion order. The four \<^verbatim>\<open>MOCK_\<close> names are bound only in mock mode, and
  read only there.
\<close>

record server =
  DEBUG_MODE :: bool
  MOCK_AUTH_ENABLED :: bool
  MOCK_USERNAME :: string
  MOCK_PASSWORD :: string
  MOCK_USER_EMAIL :: string
  MOCK_USER_ID :: string
  db :: "user_doc list option"
  SECRET_KEY :: string
  LOC_API_TOKEN :: "string option"
  LOC_API_BASEURL :: "string option"
  MYTRIPS_API_BASEURL :: "string option"
  location_state :: "string \<rightharpoonup> position"

definition ACCESS_TOKEN_EXPIRE_MINUTES :: int where
  "ACCESS_TOKEN_EXPIRE_MINUTES = 1440"

text \<open>\<^verbatim>\<open>not v\<close> for the result of \<^verbatim>\<open>os.environ.get\<close>: unset or empty.\<close>

definition py_not :: "string option \<Rightarrow> bool" where
  "py_not v = (v = None \<or> v = Some [])"

subsection \<open>Module initialisation\<close>

text \<open>
  Lines 22 to 53: the two flags are the lower-cased variable compared with \<^verbatim>\<open>'true'\<close>;
  outside mock mode \<^verbatim>\<open>MONGO_URL\<close> and a real \<^verbatim>\<open>JWT_SECRET\<close> are required and
  \<open>db\<close> is the database; in mock mode \<open>db\<close> is \<open>None\<close>. \<open>stored\<close> is what the
  \<^verbatim>\<open>users\<close> collection holds when the process starts.
\<close>

definition lower :: "string \<Rightarrow> string" where
  "lower s = map (\<lambda>c. let n = (of_char c :: nat)
                      in if 65 \<le> n \<and> n \<le> 90 then char_of (n + 32) else c) s"

definition environ_get :: "(string \<rightharpoonup> string) \<Rightarrow> string \<Rightarrow> string \<Rightarrow> string" where
  "environ_get environ k d = (case environ k of None \<Rightarrow> d | Some v \<Rightarrow> v)"

datatype startup_error = ValueError string

definition startup :: "(string \<rightharpoonup> string) \<Rightarrow> user_doc list \<Rightarrow> startup_error + server" where
  "startup environ stored =
     (let debug = (lower (environ_get environ ''DEBUG_MODE'' ''false'') = ''true'');
          mock = (lower (environ_get environ ''MOCK_AUTH_ENABLED'' ''false'') = ''true'')
      in if \<not> mock \<and> py_not (environ ''MONGO_URL'')
         then Inl (ValueError ''MONGO_URL environment variable is required when MOCK_AUTH_ENABLED is false'')
         else if (py_not (environ ''JWT_SECRET'')
                  \<or> environ ''JWT_SECRET'' = Some ''CHANGE_THIS_TO_A_SECURE_RANDOM_SECRET_IN_PRODUCTION'')
                 \<and> \<not> mock
         then Inl (ValueError ''JWT_SECRET environment variable must be set to a secure random value in production'')
         else Inr \<lparr>
           DEBUG_MODE = debug,
           MOCK_AUTH_ENABLED = mock,
           MOCK_USERNAME = (if mock then environ_get environ ''MOCK_USERNAME'' ''testuser'' else []),
           MOCK_PASSWORD = (if mock then environ_get environ ''MOCK_PASSWORD'' ''password123'' else []),
           MOCK_USER_EMAIL = (if mock then environ_get environ ''MOCK_USER_EMAIL'' ''testuser@example.com'' else []),
           MOCK_USER_ID = (if mock then environ_get environ ''MOCK_USER_ID'' ''mock-user-123'' else []),
           db = (if mock then None else Some stored),
           SECRET_KEY =
             (if py_not (environ ''JWT_SECRET'')
                 \<or> environ ''JWT_SECRET'' = Some ''CHANGE_THIS_TO_A_SECURE_RANDOM_SECRET_IN_PRODUCTION''
              then ''dev-secret-key-not-for-production''
              else environ_get environ ''JWT_SECRET'' []),
           LOC_API_TOKEN = environ ''LOC_API_TOKEN'',
           LOC_API_BASEURL = environ ''LOC_API_BASEURL'',
           MYTRIPS_API_BASEURL = environ ''MYTRIPS_API_BASEURL'',
           location_state = Map.empty \<rparr>)"

text \<open>What initialisation establishes and no handler changes: there is a database exactly outside mock mode.\<close>

definition initialised :: "server \<Rightarrow> bool" where
  "initialised srv = (MOCK_AUTH_ENABLED srv = (db srv = None))"

subsection \<open>Helper functions\<close>

definition hash_password :: "lib \<Rightarrow> world \<Rightarrow> string \<Rightarrow> string" where
  "hash_password L W password = hashpw L password (gensalt W)"

definition verify_password :: "lib \<Rightarrow> string \<Rightarrow> string \<Rightarrow> bool" where
  "verify_password L password hashed = checkpw L password hashed"

text \<open>
  \<^verbatim>\<open>jwt.encode\<close> turns a \<^verbatim>\<open>datetime\<close> expiry into whole seconds, dropping the
  fraction (\<^verbatim>\<open>timegm(exp.utctimetuple())\<close>), and signs with the key. \<^verbatim>\<open>jwt.decode\<close>
  rejects what is not a token or is signed with another key (\<^verbatim>\<open>InvalidTokenError\<close>),
  then a token whose \<^verbatim>\<open>exp\<close> is not after the current time, fraction included
  (\<^verbatim>\<open>ExpiredSignatureError\<close>).
\<close>

definition jwt_encode :: "payload \<Rightarrow> string \<Rightarrow> jwt" where
  "jwt_encode p key =
     Signed \<lparr>claim_sub = payload_sub p, claim_exp = map_option floor (payload_exp p)\<rparr> key"

definition jwt_decode :: "time \<Rightarrow> jwt \<Rightarrow> string \<Rightarrow> exn + claims" where
  "jwt_decode t token key =
     (case token of
        Garbage s \<Rightarrow> Inl InvalidTokenError
      | Signed c k \<Rightarrow>
          if k \<noteq> key then Inl InvalidTokenError
          else (case claim_exp c of
                  None \<Rightarrow> Inr c
                | Some e \<Rightarrow> if of_int e \<le> t then Inl ExpiredSignatureError else Inr c))"

definition create_access_token :: "server \<Rightarrow> world \<Rightarrow> payload \<Rightarrow> jwt" where
  "create_access_token srv W data =
     (let expire = now W + of_int (ACCESS_TOKEN_EXPIRE_MINUTES * 60);
          to_encode = data\<lparr>payload_exp := Some expire\<rparr>
      in jwt_encode to_encode (SECRET_KEY srv))"

definition find_one :: "(user_doc \<Rightarrow> bool) \<Rightarrow> user_doc list \<Rightarrow> user_doc option" where
  "find_one query docs = find query docs"

text \<open>\<^verbatim>\<open>User(...)\<close>: pydantic validates \<^verbatim>\<open>email: EmailStr\<close> and raises on a string
  that is no address; the field holds the normalised address.\<close>

definition make_User :: "lib \<Rightarrow> string \<Rightarrow> string \<Rightarrow> string \<Rightarrow> time \<Rightarrow> exn + User" where
  "make_User L i n e t =
     (case validate_email L e of
        None \<Rightarrow> Inl ValidationError
      | Some a \<Rightarrow> Inr \<lparr>User_id = i, User_username = n, User_email = a, User_created_at = t\<rparr>)"

definition User_of_doc :: "lib \<Rightarrow> user_doc \<Rightarrow> exn + User" where
  "User_of_doc L d = make_User L (doc_id d) (doc_username d) (doc_email d) (doc_created_at d)"

text \<open>
  \<^verbatim>\<open>get_current_user\<close>: the two \<^verbatim>\<open>except\<close> clauses turn the decoder's errors into
  401; an \<^verbatim>\<open>HTTPException\<close> raised in the body passes through them, and so does the
  validation error of \<^verbatim>\<open>User(...)\<close>.
\<close>

definition get_current_user_body :: "lib \<Rightarrow> server \<Rightarrow> world \<Rightarrow> jwt \<Rightarrow> exn + User" where
  "get_current_user_body L srv W token =
     (case jwt_decode (now W) token (SECRET_KEY srv) of
        Inl e \<Rightarrow> Inl e
      | Inr c \<Rightarrow>
          (case claim_sub c of
             None \<Rightarrow> Inl (HTTPException 401 ''Invalid token'')
           | Some uid \<Rightarrow>
               if MOCK_AUTH_ENABLED srv then
                 (if uid = MOCK_USER_ID srv
                  then make_User L (MOCK_USER_ID srv) (MOCK_USERNAME srv) (MOCK_USER_EMAIL srv) (now W)
                  else Inl (HTTPException 401 ''User not found''))
               else
                 (case db srv of
                    None \<Rightarrow> Inl AttributeError
                  | Some docs \<Rightarrow>
                      (case find_one (\<lambda>d. doc_id d = uid) docs of
                         None \<Rightarrow> Inl (HTTPException 401 ''User not found'')
                       | Some d \<Rightarrow> User_of_doc L d))))"

definition get_current_user :: "lib \<Rightarrow> server \<Rightarrow> world \<Rightarrow> jwt \<Rightarrow> exn + User" where
  "get_current_user L srv W token =
     (case get_current_user_body L srv W token of
        Inl ExpiredSignatureError \<Rightarrow> Inl (HTTPException 401 ''Token expired'')
      | Inl InvalidTokenError \<Rightarrow> Inl (HTTPException 401 ''Invalid token'')
      | r \<Rightarrow> r)"

subsection \<open>Auth routes\<close>

definition register :: "lib \<Rightarrow> world \<Rightarrow> server \<Rightarrow> UserCreate \<Rightarrow> (exn + Token) \<times> server" where
  "register L W srv user_data =
     (if MOCK_AUTH_ENABLED srv
      then (Inl (HTTPException 501 ''Registration not available in mock mode''), srv)
      else
        (case db srv of
           None \<Rightarrow> (Inl AttributeError, srv)
         | Some docs \<Rightarrow>
             (case find_one (\<lambda>d. doc_username d = UserCreate_username user_data
                                  \<or> doc_email d = UserCreate_email user_data) docs of
                Some existing \<Rightarrow> (Inl (HTTPException 400 ''Username or email already exists''), srv)
              | None \<Rightarrow>
                  (case make_User L (uuid4 W) (UserCreate_username user_data)
                          (UserCreate_email user_data) (now W) of
                     Inl e \<Rightarrow> (Inl e, srv)
                   | Inr usr \<Rightarrow>
                       (let doc = \<lparr>doc_id = User_id usr, doc_username = User_username usr,
                                   doc_email = User_email usr, doc_created_at = User_created_at usr,
                                   doc_password = hash_password L W (UserCreate_password user_data)\<rparr>;
                            srv' = srv\<lparr>db := Some (docs @ [doc])\<rparr>;
                            tok = create_access_token srv W
                                    \<lparr>payload_sub = Some (User_id usr), payload_exp = None\<rparr>
                        in (Inr \<lparr>access_token = tok, token_type = ''bearer'', user = usr\<rparr>, srv'))))))"

definition login :: "lib \<Rightarrow> world \<Rightarrow> server \<Rightarrow> UserLogin \<Rightarrow> exn + Token" where
  "login L W srv credentials =
     (if MOCK_AUTH_ENABLED srv then
        (if UserLogin_username credentials = MOCK_USERNAME srv
            \<and> UserLogin_password credentials = MOCK_PASSWORD srv
         then
           (case make_User L (MOCK_USER_ID srv) (MOCK_USERNAME srv) (MOCK_USER_EMAIL srv) (now W) of
              Inl e \<Rightarrow> Inl e
            | Inr user_obj \<Rightarrow>
                (let tok = create_access_token srv W
                             \<lparr>payload_sub = Some (User_id user_obj), payload_exp = None\<rparr>
                 in Inr \<lparr>access_token = tok, token_type = ''bearer'', user = user_obj\<rparr>))
         else Inl (HTTPException 401 ''Invalid credentials''))
      else
        (case db srv of
           None \<Rightarrow> Inl AttributeError
         | Some docs \<Rightarrow>
             (case find_one (\<lambda>d. doc_username d = UserLogin_username credentials) docs of
                None \<Rightarrow> Inl (HTTPException 401 ''Invalid credentials'')
              | Some d \<Rightarrow>
                  if \<not> verify_password L (UserLogin_password credentials) (doc_password d)
                  then Inl (HTTPException 401 ''Invalid credentials'')
                  else
                    (case User_of_doc L d of
                       Inl e \<Rightarrow> Inl e
                     | Inr user_obj \<Rightarrow>
                         (let tok = create_access_token srv W
                                      \<lparr>payload_sub = Some (User_id user_obj), payload_exp = None\<rparr>
                          in Inr \<lparr>access_token = tok, token_type = ''bearer'', user = user_obj\<rparr>)))))"

text \<open>
  \<^verbatim>\<open>AppLoginResponse(...)\<close> validates \<^verbatim>\<open>message: Optional[str]\<close>: a string or
  \<^verbatim>\<open>None\<close> passes, any other decoded JSON value raises.
\<close>

definition make_AppLoginResponse :: "bool \<Rightarrow> string option \<Rightarrow> json \<Rightarrow> exn + AppLoginResponse" where
  "make_AppLoginResponse a uid m =
     (case m of
        JStr s \<Rightarrow> Inr \<lparr>authenticated = a, user_id = uid, message = Some s\<rparr>
      | JNull \<Rightarrow> Inr \<lparr>authenticated = a, user_id = uid, message = None\<rparr>
      | _ \<Rightarrow> Inl ValidationError)"

text \<open>The body of the \<^verbatim>\<open>try\<close> of \<^verbatim>\<open>app_login\<close> (lines 269 to 336).\<close>

definition app_login_try :: "lib \<Rightarrow> world \<Rightarrow> exn + AppLoginResponse" where
  "app_login_try L W =
     (case httpx_request (upstream W) of
        Inl e \<Rightarrow> Inl e
      | Inr (status_code, body) \<Rightarrow>
          if status_code = 200 then
            (case response_json body of
               Inl e \<Rightarrow> Inl e
             | Inr data \<Rightarrow>
                 (case py_get data ''authenticated'' of
                    Inl e \<Rightarrow> Inl e
                  | Inr a \<Rightarrow>
                 (case py_get data ''user_id'' of
                    Inl e \<Rightarrow> Inl e
                  | Inr u \<Rightarrow>
                 (case py_get data ''message'' of
                    Inl e \<Rightarrow> Inl e
                  | Inr m \<Rightarrow>
                      (let authenticated = or_default a (JBool False);
                           user_id = or_None u;
                           message = or_default m (JStr ''Authentication successful'')
                       in if truthy authenticated \<and> truthy user_id
                          then make_AppLoginResponse True (Some (py_str L user_id)) message
                          else make_AppLoginResponse False None
                                 (py_or message (JStr ''Invalid email or password'')))))))
          else if status_code = 401 \<or> status_code = 403 then
            Inr \<lparr>authenticated = False, user_id = None, message = Some ''Invalid credentials''\<rparr>
          else
            Inr \<lparr>authenticated = False, user_id = None, message = Some ''Authentication service error''\<rparr>)"

definition app_login :: "lib \<Rightarrow> world \<Rightarrow> server \<Rightarrow> AppLoginRequest \<Rightarrow> exn + AppLoginResponse" where
  "app_login L W srv credentials =
     (if py_not (LOC_API_TOKEN srv) then
        Inr \<lparr>authenticated = False, user_id = None, message = Some ''Authentication service unavailable''\<rparr>
      else if py_not (MYTRIPS_API_BASEURL srv) then
        Inr \<lparr>authenticated = False, user_id = None, message = Some ''Authentication service unavailable''\<rparr>
      else if MOCK_AUTH_ENABLED srv then
        (if AppLoginRequest_email credentials = MOCK_USER_EMAIL srv
            \<and> AppLoginRequest_password credentials = MOCK_PASSWORD srv
         then Inr \<lparr>authenticated = True, user_id = Some (MOCK_USER_ID srv),
                   message = Some ''Authentication successful''\<rparr>
         else Inr \<lparr>authenticated = False, user_id = None, message = Some ''Invalid credentials''\<rparr>)
      else
        (case app_login_try L W of
           Inr r \<Rightarrow> Inr r
         | Inl TimeoutException \<Rightarrow>
             Inr \<lparr>authenticated = False, user_id = None, message = Some ''Authentication service timeout''\<rparr>
         | Inl e \<Rightarrow>
             Inr \<lparr>authenticated = False, user_id = None, message = Some ''Authentication failed''\<rparr>))"

definition get_me :: "User \<Rightarrow> exn + User" where
  "get_me current_user = Inr current_user"

subsection \<open>Mock data endpoints\<close>

text \<open>A coordinate dict \<^verbatim>\<open>{"lat": ..., "lng": ...}\<close>, of any two values and of two floats.\<close>

definition coordinate :: "json \<Rightarrow> json \<Rightarrow> json" where
  "coordinate la lo = JObj [(''lat'', la), (''lng'', lo)]"

definition point :: "real \<Rightarrow> real \<Rightarrow> json" where
  "point la lo = coordinate (JFloat la) (JFloat lo)"

definition get_routes :: "lib \<Rightarrow> exn + RouteData list" where
  "get_routes L = Inr [
     \<lparr>RouteData_id = ''route-1'', RouteData_name = ''Downtown Loop'',
      RouteData_description = ''City center patrol route'',
      RouteData_coordinates =
        [point (lit L 40.7589) (- lit L 73.9851), point (lit L 40.7614) (- lit L 73.9776),
         point (lit L 40.7580) (- lit L 73.9855), point (lit L 40.7505) (- lit L 73.9934),
         point (lit L 40.7489) (- lit L 73.9680), point (lit L 40.7589) (- lit L 73.9851)],
      RouteData_distance = lit L 5.2, RouteData_estimated_time = 45\<rparr>,
     \<lparr>RouteData_id = ''route-2'', RouteData_name = ''Westside Highway'',
      RouteData_description = ''Coastal route along the waterfront'',
      RouteData_coordinates =
        [point (lit L 40.7489) (- lit L 74.0060), point (lit L 40.7589) (- lit L 74.0080),
         point (lit L 40.7689) (- lit L 74.0020), point (lit L 40.7789) (- lit L 73.9940),
         point (lit L 40.7889) (- lit L 73.9820)],
      RouteData_distance = lit L 8.5, RouteData_estimated_time = 60\<rparr>,
     \<lparr>RouteData_id = ''route-3'', RouteData_name = ''East Side Express'',
      RouteData_description = ''Fast route through eastern districts'',
      RouteData_coordinates =
        [point (lit L 40.7580) (- lit L 73.9680), point (lit L 40.7680) (- lit L 73.9600),
         point (lit L 40.7780) (- lit L 73.9520), point (lit L 40.7880) (- lit L 73.9440),
         point (lit L 40.7980) (- lit L 73.9360)],
      RouteData_distance = lit L 12.3, RouteData_estimated_time = 90\<rparr>]"

text \<open>The test that opens the three proxy handlers: mock mode, or the Location API not configured.\<close>

definition use_mock_data :: "server \<Rightarrow> bool" where
  "use_mock_data srv =
     (MOCK_AUTH_ENABLED srv \<or> py_not (LOC_API_BASEURL srv) \<or> py_not (LOC_API_TOKEN srv))"

definition mock_users :: "TrackableUser list" where
  "mock_users = [
     \<lparr>TrackableUser_id = ''user-1'', TrackableUser_name = ''Driver A - John Smith'', TrackableUser_status = ''active''\<rparr>,
     \<lparr>TrackableUser_id = ''user-2'', TrackableUser_name = ''Driver B - Sarah Johnson'', TrackableUser_status = ''active''\<rparr>,
     \<lparr>TrackableUser_id = ''user-3'', TrackableUser_name = ''Driver C - Mike Davis'', TrackableUser_status = ''on_break''\<rparr>,
     \<lparr>TrackableUser_id = ''user-4'', TrackableUser_name = ''Driver D - Emily Chen'', TrackableUser_status = ''active''\<rparr>,
     \<lparr>TrackableUser_id = ''user-5'', TrackableUser_name = ''Driver E - Robert Wilson'', TrackableUser_status = ''inactive''\<rparr>]"

definition fallback_users :: "TrackableUser list" where
  "fallback_users = [
     \<lparr>TrackableUser_id = ''user-1'', TrackableUser_name = ''Driver A - John Smith'', TrackableUser_status = ''active''\<rparr>,
     \<lparr>TrackableUser_id = ''user-2'', TrackableUser_name = ''Driver B - Sarah Johnson'', TrackableUser_status = ''active''\<rparr>]"

text \<open>\<^verbatim>\<open>TrackableUser(id=..., name=..., status=...)\<close> validates \<^verbatim>\<open>name: str\<close>.\<close>

definition make_TrackableUser :: "string \<Rightarrow> json \<Rightarrow> string \<Rightarrow> exn + TrackableUser" where
  "make_TrackableUser i n st =
     (case n of
        JStr s \<Rightarrow> Inr \<lparr>TrackableUser_id = i, TrackableUser_name = s, TrackableUser_status = st\<rparr>
      | _ \<Rightarrow> Inl ValidationError)"

text \<open>One turn of the loop over \<^verbatim>\<open>data['data']['users']\<close>.\<close>

definition TrackableUser_of :: "lib \<Rightarrow> json \<Rightarrow> exn + TrackableUser" where
  "TrackableUser_of L usr =
     (case py_get usr ''id'' of
        Inl e \<Rightarrow> Inl e
      | Inr i \<Rightarrow>
     (case py_get usr ''display_name'' of
        Inl e \<Rightarrow> Inl e
      | Inr dn \<Rightarrow>
          if truthy (or_None dn)
          then make_TrackableUser (py_str L (or_None i)) (or_None dn) ''active''
          else (case py_get usr ''username'' of
                  Inl e \<Rightarrow> Inl e
                | Inr un \<Rightarrow> make_TrackableUser (py_str L (or_None i)) (or_None un) ''active'')))"

text \<open>The body of the \<^verbatim>\<open>try\<close> of \<^verbatim>\<open>get_trackable_users\<close>, with the fallback that follows
  the \<^verbatim>\<open>async with\<close> block.\<close>

definition get_trackable_users_try :: "lib \<Rightarrow> world \<Rightarrow> exn + TrackableUser list" where
  "get_trackable_users_try L W =
     (case httpx_request (upstream W) of
        Inl e \<Rightarrow> Inl e
      | Inr (status_code, body) \<Rightarrow>
          if status_code = 200 then
            (case response_json body of
               Inl e \<Rightarrow> Inl e
             | Inr data \<Rightarrow>
                 (case py_get data ''status'' of
                    Inl e \<Rightarrow> Inl e
                  | Inr st \<Rightarrow>
                      if or_None st \<noteq> JStr ''success'' then Inr fallback_users
                      else
                        (case py_get data ''data'' of
                           Inl e \<Rightarrow> Inl e
                         | Inr d \<Rightarrow>
                        (case py_get (or_default d (JObj [])) ''users'' of
                           Inl e \<Rightarrow> Inl e
                         | Inr us \<Rightarrow>
                             if \<not> truthy (or_None us) then Inr fallback_users
                             else (case py_iter (or_None us) of
                                     Inl e \<Rightarrow> Inl e
                                   | Inr xs \<Rightarrow> each (TrackableUser_of L) xs)))))
          else Inr fallback_users)"

definition get_trackable_users :: "lib \<Rightarrow> world \<Rightarrow> server \<Rightarrow> exn + TrackableUser list" where
  "get_trackable_users L W srv =
     (if use_mock_data srv then Inr mock_users
      else (case get_trackable_users_try L W of
              Inr users \<Rightarrow> Inr users
            | Inl e \<Rightarrow> Inr fallback_users))"

subsection \<open>Simulated location tracking\<close>

text \<open>Python's \<^verbatim>\<open>x % m\<close> on floats, for a positive \<open>m\<close>: the exact remainder of the
  division truncated towards zero, to which \<open>m\<close> is added, in floats, when it is negative.\<close>

definition py_mod :: "lib \<Rightarrow> real \<Rightarrow> real \<Rightarrow> real" where
  "py_mod L x m =
     (let q = (if 0 \<le> x then \<lfloor>x / m\<rfloor> else \<lceil>x / m\<rceil>);
          r = x - m * of_int q
      in if r < 0 then fadd L r m else r)"

text \<open>The mock branch of \<^verbatim>\<open>get_user_location\<close>: seed the entry of a new id, move an old one.
  The draws are used in the order the source calls \<^verbatim>\<open>random.uniform\<close>.\<close>

definition mock_location ::
  "lib \<Rightarrow> world \<Rightarrow> server \<Rightarrow> string \<Rightarrow> (exn + LocationData) \<times> server" where
  "mock_location L W srv uid =
     (let r = random_random W;
          p = (case location_state srv uid of
                 None \<Rightarrow>
                   \<lparr>pos_lat = fadd L (lit L 40.7589) (uniform L (- lit L 0.01) (lit L 0.01) (r 0)),
                    pos_lng = fadd L (- lit L 73.9851) (uniform L (- lit L 0.01) (lit L 0.01) (r 1)),
                    pos_heading = uniform L 0 360 (r 2)\<rparr>
               | Some q \<Rightarrow>
                   \<lparr>pos_lat = fadd L (pos_lat q) (uniform L (- lit L 0.0005) (lit L 0.0005) (r 0)),
                    pos_lng = fadd L (pos_lng q) (uniform L (- lit L 0.0005) (lit L 0.0005) (r 1)),
                    pos_heading =
                      py_mod L (fadd L (pos_heading q) (uniform L (- 10) 10 (r 2))) 360\<rparr>)
      in (Inr \<lparr>LocationData_user_id = uid, lat = pos_lat p, lng = pos_lng p, timestamp = now W,
                speed = Some (uniform L 20 60 (r 3)), heading = Some (pos_heading p)\<rparr>,
          srv\<lparr>location_state := (location_state srv)(uid \<mapsto> p)\<rparr>))"

text \<open>The fallback of \<^verbatim>\<open>get_user_location\<close> (the same code after the \<^verbatim>\<open>async with\<close>
  block and in the \<^verbatim>\<open>except\<close> clause).\<close>

definition fallback_location ::
  "lib \<Rightarrow> world \<Rightarrow> server \<Rightarrow> string \<Rightarrow> (exn + LocationData) \<times> server" where
  "fallback_location L W srv uid =
     (let p = (case location_state srv uid of
                 None \<Rightarrow> \<lparr>pos_lat = lit L 40.7589, pos_lng = - lit L 73.9851, pos_heading = 0\<rparr>
               | Some q \<Rightarrow> q)
      in (Inr \<lparr>LocationData_user_id = uid, lat = pos_lat p, lng = pos_lng p, timestamp = now W,
                speed = Some 0, heading = Some (pos_heading p)\<rparr>,
          srv\<lparr>location_state := (location_state srv)(uid \<mapsto> p)\<rparr>))"

text \<open>\<^verbatim>\<open>server_time\<close> parsed, or the current time when \<^verbatim>\<open>strptime\<close> raises
  (on a value that is no string, or on a string of another format).\<close>

definition parse_server_time :: "lib \<Rightarrow> world \<Rightarrow> json \<Rightarrow> time" where
  "parse_server_time L W v =
     (case v of
        JStr s \<Rightarrow> (case strptime L s of Some t \<Rightarrow> t | None \<Rightarrow> now W)
      | _ \<Rightarrow> now W)"

text \<open>pydantic on \<^verbatim>\<open>float\<close> and on \<^verbatim>\<open>Optional[float]\<close>.\<close>

definition required_float :: "lib \<Rightarrow> json \<Rightarrow> exn + real" where
  "required_float L v = (case to_float L v of None \<Rightarrow> Inl ValidationError | Some x \<Rightarrow> Inr x)"

definition optional_float :: "lib \<Rightarrow> json \<Rightarrow> exn + real option" where
  "optional_float L v =
     (if v = JNull then Inr None
      else (case to_float L v of None \<Rightarrow> Inl ValidationError | Some x \<Rightarrow> Inr (Some x)))"

definition make_LocationData ::
  "lib \<Rightarrow> string \<Rightarrow> json \<Rightarrow> json \<Rightarrow> time \<Rightarrow> json \<Rightarrow> json \<Rightarrow> exn + LocationData" where
  "make_LocationData L uid la lo ts sp be =
     (case required_float L la of
        Inl e \<Rightarrow> Inl e
      | Inr x \<Rightarrow>
     (case required_float L lo of
        Inl e \<Rightarrow> Inl e
      | Inr y \<Rightarrow>
     (case optional_float L sp of
        Inl e \<Rightarrow> Inl e
      | Inr s \<Rightarrow>
     (case optional_float L be of
        Inl e \<Rightarrow> Inl e
      | Inr h \<Rightarrow>
          Inr \<lparr>LocationData_user_id = uid, lat = x, lng = y, timestamp = ts, speed = s, heading = h\<rparr>))))"

definition LocationData_of :: "lib \<Rightarrow> world \<Rightarrow> json \<Rightarrow> exn + LocationData" where
  "LocationData_of L W location =
     (case py_get location ''server_time'' of
        Inl e \<Rightarrow> Inl e
      | Inr st \<Rightarrow>
     (case py_get location ''user_id'' of
        Inl e \<Rightarrow> Inl e
      | Inr u \<Rightarrow>
     (case py_get location ''latitude'' of
        Inl e \<Rightarrow> Inl e
      | Inr la \<Rightarrow>
     (case py_get location ''longitude'' of
        Inl e \<Rightarrow> Inl e
      | Inr lo \<Rightarrow>
     (case py_get location ''speed'' of
        Inl e \<Rightarrow> Inl e
      | Inr sp \<Rightarrow>
     (case py_get location ''bearing'' of
        Inl e \<Rightarrow> Inl e
      | Inr be \<Rightarrow>
          make_LocationData L (py_str L (or_None u)) (or_None la) (or_None lo)
            (parse_server_time L W (or_None st)) (or_None sp) (or_None be)))))))"

text \<open>The body of the \<^verbatim>\<open>try\<close> of \<^verbatim>\<open>get_user_location\<close> up to the end of the
  \<^verbatim>\<open>async with\<close> block: \<open>Inr None\<close> when control leaves the block without returning.\<close>

definition get_user_location_try :: "lib \<Rightarrow> world \<Rightarrow> exn + LocationData option" where
  "get_user_location_try L W =
     (case httpx_request (upstream W) of
        Inl e \<Rightarrow> Inl e
      | Inr (status_code, body) \<Rightarrow>
          if status_code = 200 then
            (case response_json body of
               Inl e \<Rightarrow> Inl e
             | Inr data \<Rightarrow>
                 (case py_get data ''success'' of
                    Inl e \<Rightarrow> Inl e
                  | Inr ok \<Rightarrow>
                      if \<not> truthy (or_None ok) then Inr None
                      else
                        (case py_get data ''data'' of
                           Inl e \<Rightarrow> Inl e
                         | Inr d \<Rightarrow>
                             if \<not> truthy (or_None d) then Inr None
                             else
                               (case py_len (or_None d) of
                                  Inl e \<Rightarrow> Inl e
                                | Inr n \<Rightarrow>
                                    if \<not> 0 < n then Inr None
                                    else
                                      (case py_first (or_None d) of
                                         Inl e \<Rightarrow> Inl e
                                       | Inr location \<Rightarrow>
                                           (case LocationData_of L W location of
                                              Inl e \<Rightarrow> Inl e
                                            | Inr r \<Rightarrow> Inr (Some r)))))))
          else Inr None)"

definition get_user_location :: "lib \<Rightarrow> world \<Rightarrow> server \<Rightarrow> string \<Rightarrow> (exn + LocationData) \<times> server" where
  "get_user_location L W srv uid =
     (if use_mock_data srv then mock_location L W srv uid
      else (case get_user_location_try L W of
              Inr (Some r) \<Rightarrow> (Inr r, srv)
            | Inr None \<Rightarrow> fallback_location L W srv uid
            | Inl e \<Rightarrow> fallback_location L W srv uid))"

subsection \<open>Route history\<close>

text \<open>The loop \<^verbatim>\<open>for i in range(20)\<close> of the mock branch: two draws and one timestamp a turn.\<close>

fun mock_history_loop ::
  "lib \<Rightarrow> world \<Rightarrow> nat list \<Rightarrow> json list \<times> string list \<Rightarrow> json list \<times> string list" where
  "mock_history_loop L W [] (history_coords, timestamps_acc) = (history_coords, timestamps_acc)"
| "mock_history_loop L W (i # rest) (history_coords, timestamps_acc) =
     mock_history_loop L W rest
       (history_coords @
          [point (fadd L (fadd L (lit L 40.7589) (fmul L (real i) (lit L 0.001)))
                         (uniform L (- lit L 0.0002) (lit L 0.0002) (random_random W (2 * i))))
                 (fadd L (fadd L (- lit L 73.9851) (fmul L (real i) (lit L 0.0008)))
                         (uniform L (- lit L 0.0002) (lit L 0.0002) (random_random W (2 * i + 1))))],
        timestamps_acc @ [isoformat L (now W - of_int ((20 - int i) * 60))])"

text \<open>The same loop in the two fallbacks, without the jitter.\<close>

fun fallback_history_loop ::
  "lib \<Rightarrow> world \<Rightarrow> nat list \<Rightarrow> json list \<times> string list \<Rightarrow> json list \<times> string list" where
  "fallback_history_loop L W [] (history_coords, timestamps_acc) = (history_coords, timestamps_acc)"
| "fallback_history_loop L W (i # rest) (history_coords, timestamps_acc) =
     fallback_history_loop L W rest
       (history_coords @
          [point (fadd L (lit L 40.7589) (fmul L (real i) (lit L 0.001)))
                 (fadd L (- lit L 73.9851) (fmul L (real i) (lit L 0.0008)))],
        timestamps_acc @ [isoformat L (now W - of_int ((20 - int i) * 60))])"

definition fallback_history :: "lib \<Rightarrow> world \<Rightarrow> string \<Rightarrow> RouteHistory" where
  "fallback_history L W uid =
     (let (history_coords, ts) = fallback_history_loop L W [0..<20] ([], [])
      in \<lparr>RouteHistory_user_id = uid, coordinates = history_coords, timestamps = ts\<rparr>)"

text \<open>
  The loop over \<^verbatim>\<open>data['data']\<close>: a coordinate is appended, then a timestamp, the
  parsed \<^verbatim>\<open>server_time\<close> or the current time. A location that is no dict raises at
  its first \<^verbatim>\<open>get\<close>, before anything is appended for it.
\<close>

fun history_loop ::
  "lib \<Rightarrow> world \<Rightarrow> json list \<Rightarrow> json list \<times> string list \<Rightarrow> exn + json list \<times> string list" where
  "history_loop L W [] (history_coords, timestamps_acc) = Inr (history_coords, timestamps_acc)"
| "history_loop L W (location # rest) (history_coords, timestamps_acc) =
     (case py_get location ''latitude'' of
        Inl e \<Rightarrow> Inl e
      | Inr la \<Rightarrow>
     (case py_get location ''longitude'' of
        Inl e \<Rightarrow> Inl e
      | Inr lo \<Rightarrow>
     (case py_get location ''server_time'' of
        Inl e \<Rightarrow> Inl e
      | Inr st \<Rightarrow>
          history_loop L W rest
            (history_coords @ [coordinate (or_None la) (or_None lo)],
             timestamps_acc @ [isoformat L (parse_server_time L W (or_None st))]))))"

definition get_route_history_try :: "lib \<Rightarrow> world \<Rightarrow> string \<Rightarrow> exn + RouteHistory option" where
  "get_route_history_try L W uid =
     (case httpx_request (upstream W) of
        Inl e \<Rightarrow> Inl e
      | Inr (status_code, body) \<Rightarrow>
          if status_code = 200 then
            (case response_json body of
               Inl e \<Rightarrow> Inl e
             | Inr data \<Rightarrow>
                 (case py_get data ''success'' of
                    Inl e \<Rightarrow> Inl e
                  | Inr ok \<Rightarrow>
                      if \<not> truthy (or_None ok) then Inr None
                      else
                        (case py_get data ''data'' of
                           Inl e \<Rightarrow> Inl e
                         | Inr d \<Rightarrow>
                             if \<not> truthy (or_None d) then Inr None
                             else
                               (case py_iter (or_None d) of
                                  Inl e \<Rightarrow> Inl e
                                | Inr locations \<Rightarrow>
                                    (case history_loop L W locations ([], []) of
                                       Inl e \<Rightarrow> Inl e
                                     | Inr (history_coords, ts) \<Rightarrow>
                                         Inr (Some \<lparr>RouteHistory_user_id = uid,
                                                    coordinates = history_coords,
                                                    timestamps = ts\<rparr>))))))
          else Inr None)"

text \<open>\<^verbatim>\<open>limit\<close>, \<^verbatim>\<open>date_from\<close> and \<^verbatim>\<open>date_to\<close> go into the outgoing request only;
  the answer to that request is the \<open>upstream\<close> of the world.\<close>

definition get_route_history ::
  "lib \<Rightarrow> world \<Rightarrow> server \<Rightarrow> string \<Rightarrow> int \<Rightarrow> string option \<Rightarrow> string option \<Rightarrow> exn + RouteHistory" where
  "get_route_history L W srv uid limit date_from date_to =
     (if use_mock_data srv then
        (let (history_coords, ts) = mock_history_loop L W [0..<20] ([], [])
         in Inr \<lparr>RouteHistory_user_id = uid, coordinates = history_coords, timestamps = ts\<rparr>)
      else (case get_route_history_try L W uid of
              Inr (Some r) \<Rightarrow> Inr r
            | Inr None \<Rightarrow> Inr (fallback_history L W uid)
            | Inl e \<Rightarrow> Inr (fallback_history L W uid)))"

subsection \<open>The router\<close>

datatype request =
    POST_auth_register UserCreate
  | POST_auth_login UserLogin
  | POST_auth_app_login AppLoginRequest
  | GET_auth_me
  | GET_routes
  | GET_users
  | GET_location string
  | GET_history string int "string option" "string option"

datatype body =
    TokenBody Token
  | AppLoginBody AppLoginResponse
  | UserBody User
  | RoutesBody "RouteData list"
  | UsersBody "TrackableUser list"
  | LocationBody LocationData
  | HistoryBody RouteHistory

definition respond :: "('a \<Rightarrow> body) \<Rightarrow> exn + 'a \<Rightarrow> exn + body" where
  "respond wrap r = (case r of Inl e \<Rightarrow> Inl e | Inr x \<Rightarrow> Inr (wrap x))"

text \<open>\<^verbatim>\<open>security = HTTPBearer()\<close>: a request without bearer credentials is refused before
  \<^verbatim>\<open>get_current_user\<close> runs, with 403 or, from newer releases of FastAPI, 401.\<close>

definition security :: "lib \<Rightarrow> jwt option \<Rightarrow> exn + jwt" where
  "security L bearer =
     (case bearer of
        None \<Rightarrow> Inl (HTTPException (if HTTPBearer_401 L then 401 else 403) ''Not authenticated'')
      | Some token \<Rightarrow> Inr token)"

text \<open>
  The routes as declared on \<^verbatim>\<open>api_router\<close>. \<open>bearer\<close> is the token of the request's
  \<^verbatim>\<open>Authorization\<close> header, if it has one. Only \<^verbatim>\<open>get_me\<close> declares
  \<^verbatim>\<open>Depends(get_current_user)\<close>; no other handler has a parameter that reads the header.
  The bodies of register and app-login are validated before the handler runs: an
  \<^verbatim>\<open>email\<close> that is no address is answered 422, and the handler gets the normalised one.
\<close>

definition api :: "lib \<Rightarrow> world \<Rightarrow> server \<Rightarrow> jwt option \<Rightarrow> request \<Rightarrow> (exn + body) \<times> server" where
  "api L W srv bearer req =
     (case req of
        POST_auth_register user_data \<Rightarrow>
          (case validate_email L (UserCreate_email user_data) of
             None \<Rightarrow> (Inl RequestValidationError, srv)
           | Some a \<Rightarrow>
               (let (r, srv') = register L W srv (user_data\<lparr>UserCreate_email := a\<rparr>)
                in (respond TokenBody r, srv')))
      | POST_auth_login credentials \<Rightarrow> (respond TokenBody (login L W srv credentials), srv)
      | POST_auth_app_login credentials \<Rightarrow>
          (case validate_email L (AppLoginRequest_email credentials) of
             None \<Rightarrow> (Inl RequestValidationError, srv)
           | Some a \<Rightarrow>
               (respond AppLoginBody
                  (app_login L W srv (credentials\<lparr>AppLoginRequest_email := a\<rparr>)), srv))
      | GET_auth_me \<Rightarrow>
          (case security L bearer of
             Inl e \<Rightarrow> (Inl e, srv)
           | Inr token \<Rightarrow>
               (case get_current_user L srv W token of
                  Inl e \<Rightarrow> (Inl e, srv)
                | Inr current_user \<Rightarrow> (respond UserBody (get_me current_user), srv)))
      | GET_routes \<Rightarrow> (respond RoutesBody (get_routes L), srv)
      | GET_users \<Rightarrow> (respond UsersBody (get_trackable_users L W srv), srv)
      | GET_location uid \<Rightarrow>
          (let (r, srv') = get_user_location L W srv uid in (respond LocationBody r, srv'))
      | GET_history uid limit date_from date_to \<Rightarrow>
          (respond HistoryBody (get_route_history L W srv uid limit date_from date_to), srv))"

text \<open>The status line: 200 for a returned value, the code of an \<^verbatim>\<open>HTTPException\<close>, 422 for
  a request body that fails validation, 500 for any other exception that leaves a handler.\<close>

definition status_code :: "exn + 'a \<Rightarrow> nat" where
  "status_code r =
     (case r of
        Inr x \<Rightarrow> 200
      | Inl (HTTPException code detail) \<Rightarrow> code
      | Inl RequestValidationError \<Rightarrow> 422
      | Inl e \<Rightarrow> 500)"

subsection \<open>Notions the properties are stated with\<close>

text \<open>Every message literal that \<^verbatim>\<open>app_login\<close> itself writes into a response.\<close>

definition generic_messages :: "string list" where
  "generic_messages =
     [''Authentication service unavailable'', ''Authentication successful'', ''Invalid credentials'',
      ''Invalid email or password'', ''Authentication service error'',
      ''Authentication service timeout'', ''Authentication failed'']"

text \<open>The upstream call failed: it timed out, raised, or answered with a status other than 200.\<close>

definition upstream_failure :: "http_result \<Rightarrow> bool" where
  "upstream_failure r =
     (case r of Timeout \<Rightarrow> True | NetworkError \<Rightarrow> True | Response code body \<Rightarrow> code \<noteq> 200)"

text \<open>
  An entry of a users listing from which a TrackableUser can be made: an object whose
  \<^verbatim>\<open>display_name\<close>, or when that is missing or empty its \<^verbatim>\<open>username\<close>, is a string.
\<close>

definition is_str :: "json \<Rightarrow> bool" where
  "is_str v = (case v of JStr s \<Rightarrow> True | _ \<Rightarrow> False)"

definition user_entry_ok :: "json \<Rightarrow> bool" where
  "user_entry_ok u =
     (case u of
        JObj kvs \<Rightarrow>
          (if truthy (or_None (map_of kvs ''display_name''))
           then is_str (or_None (map_of kvs ''display_name''))
           else is_str (or_None (map_of kvs ''username'')))
      | _ \<Rightarrow> False)"

text \<open>
  The users that a 200 answer of \<^verbatim>\<open>users.php\<close> lists: the body is a JSON object with
  status \<^verbatim>\<open>success\<close>, its \<^verbatim>\<open>data\<close> is an object and \<^verbatim>\<open>users\<close> there is a list, not
  empty, of such entries. Every other body carries no users or makes the handler raise: a
  body that is no JSON, or no object, a \<^verbatim>\<open>data\<close> that is null or no object, users that
  are no list, a user that is no object or has no name.
\<close>

definition users_listing :: "json option \<Rightarrow> json list option" where
  "users_listing body =
     (case body of
        Some (JObj kvs) \<Rightarrow>
          (if map_of kvs ''status'' \<noteq> Some (JStr ''success'') then None
           else (case map_of kvs ''data'' of
                   Some (JObj d) \<Rightarrow>
                     (case map_of d ''users'' of
                        Some (JArr xs) \<Rightarrow>
                          (if xs \<noteq> [] \<and> list_all user_entry_ok xs then Some xs else None)
                      | _ \<Rightarrow> None)
                 | _ \<Rightarrow> None))
      | _ \<Rightarrow> None)"

text \<open>The call to the Location API failed: a timeout, an exception, a status other than 200,
  or a 200 answer that lists no users.\<close>

definition users_upstream_failure :: "http_result \<Rightarrow> bool" where
  "users_upstream_failure r =
     (case r of
        Timeout \<Rightarrow> True
      | NetworkError \<Rightarrow> True
      | Response code body \<Rightarrow> code \<noteq> 200 \<or> users_listing body = None)"

text \<open>The subject of a token names a user the service knows: the mock user in mock mode, a
  stored user otherwise.\<close>

definition known_subject :: "server \<Rightarrow> string \<Rightarrow> bool" where
  "known_subject srv uid =
     (if MOCK_AUTH_ENABLED srv then uid = MOCK_USER_ID srv
      else (case db srv of None \<Rightarrow> False | Some docs \<Rightarrow> find_one (\<lambda>d. doc_id d = uid) docs \<noteq> None))"

text \<open>The subject is known and the email of its record is an address, so that \<^verbatim>\<open>User(...)\<close>
  can be built for it.\<close>

definition subject_loads :: "lib \<Rightarrow> server \<Rightarrow> string \<Rightarrow> bool" where
  "subject_loads L srv uid =
     (if MOCK_AUTH_ENABLED srv
      then uid = MOCK_USER_ID srv \<and> validate_email L (MOCK_USER_EMAIL srv) \<noteq> None
      else (case db srv of
              None \<Rightarrow> False
            | Some docs \<Rightarrow>
                (case find_one (\<lambda>d. doc_id d = uid) docs of
                   None \<Rightarrow> False
                 | Some d \<Rightarrow> validate_email L (doc_email d) \<noteq> None)))"

text \<open>A bearer token is valid at the time of the request: it is signed with the service's key,
  not expired, and its subject is known.\<close>

definition valid_token :: "server \<Rightarrow> world \<Rightarrow> jwt \<Rightarrow> bool" where
  "valid_token srv W token =
     (case jwt_decode (now W) token (SECRET_KEY srv) of
        Inl e \<Rightarrow> False
      | Inr c \<Rightarrow> (case claim_sub c of None \<Rightarrow> False | Some uid \<Rightarrow> known_subject srv uid))"

text \<open>Two successive requests for the location of one id: the responses of both.\<close>

definition twice ::
  "lib \<Rightarrow> world \<Rightarrow> world \<Rightarrow> server \<Rightarrow> string \<Rightarrow> (exn + LocationData) \<times> (exn + LocationData)" where
  "twice L W1 W2 srv uid =
     (let (r1, srv1) = get_user_location L W1 srv uid;
          (r2, srv2) = get_user_location L W2 srv1 uid
      in (r1, r2))"

text \<open>
  What the property of the drift uses of rounding to the nearest double, overflow apart: it
  is monotone, leaves a double as it is, commutes with the sign, and doubling a double is
  exact.
\<close>

definition rounds :: "lib \<Rightarrow> bool" where
  "rounds L =
     ((\<forall>x y. x \<le> y \<longrightarrow> fl L x \<le> fl L y)
      \<and> (\<forall>x. fl L (fl L x) = fl L x)
      \<and> (\<forall>x. fl L (- x) = - fl L x)
      \<and> (\<forall>x. fl L (2 * fl L x) = 2 * fl L x))"

subsection \<open>Concrete inputs\<close>

definition sample_lib :: lib where
  "sample_lib = \<lparr>
     py_str = (\<lambda>v. case v of JStr s \<Rightarrow> s | _ \<Rightarrow> ''None''),
     to_float = (\<lambda>v. case v of JFloat x \<Rightarrow> Some x | JInt i \<Rightarrow> Some (of_int i) | _ \<Rightarrow> None),
     strptime = (\<lambda>s. None),
     isoformat = (\<lambda>t. ''1970-01-01T00:00:00+00:00''),
     hashpw = (\<lambda>password salt. salt @ password),
     checkpw = (\<lambda>password hashed. hashed = ''salt'' @ password),
     fl = (\<lambda>x. x),
     EmailStr = (\<lambda>s. Some s),
     HTTPBearer_401 = False \<rparr>"

definition sample_world :: world where
  "sample_world = \<lparr> now = 1700000000, upstream = Response 500 None,
     random_random = (\<lambda>n. 1 / 2), uuid4 = ''0b0e6c7a'', gensalt = ''salt'' \<rparr>"

definition mock_server :: server where
  "mock_server = \<lparr>
     DEBUG_MODE = False, MOCK_AUTH_ENABLED = True,
     MOCK_USERNAME = ''testuser'', MOCK_PASSWORD = ''password123'',
     MOCK_USER_EMAIL = ''testuser@example.com'', MOCK_USER_ID = ''mock-user-123'',
     db = None, SECRET_KEY = ''dev-secret-key-not-for-production'',
     LOC_API_TOKEN = None, LOC_API_BASEURL = None, MYTRIPS_API_BASEURL = None,
     location_state = Map.empty \<rparr>"

text \<open>The same with \<^verbatim>\<open>MOCK_USER_EMAIL=admin\<close> in the environment.\<close>

definition admin_server :: server where
  "admin_server = mock_server\<lparr>MOCK_USER_EMAIL := ''admin''\<rparr>"

definition live_server :: server where
  "live_server = \<lparr>
     DEBUG_MODE = False, MOCK_AUTH_ENABLED = False,
     MOCK_USERNAME = [], MOCK_PASSWORD = [], MOCK_USER_EMAIL = [], MOCK_USER_ID = [],
     db = Some [\<lparr>doc_id = ''id-ada'', doc_username = ''ada'', doc_email = ''ada@example.com'',
                 doc_created_at = 1600000000, doc_password = ''saltpw''\<rparr>],
     SECRET_KEY = ''k3y'',
     LOC_API_TOKEN = Some ''loc-token'', LOC_API_BASEURL = Some ''https://loc.example/api'',
     MYTRIPS_API_BASEURL = Some ''https://trips.example/api'',
     location_state = Map.empty \<rparr>"

definition leaking_world :: world where
  "leaking_world = sample_world\<lparr>upstream :=
     Response 200 (Some (JObj [(''authenticated'', JBool False),
                               (''message'', JStr ''pg: relation accounts_v2 is locked'')]))\<rparr>"

text \<open>A token issued nine tenths of a second after a full second, and a request four tenths of
  a second after the full second 24 hours later.\<close>

definition issue_world :: world where
  "issue_world = sample_world\<lparr>now := 1700000000.9\<rparr>"

definition late_world :: world where
  "late_world = sample_world\<lparr>now := 1700086400.4\<rparr>"

section \<open>Properties\<close>

subsection \<open>Initialisation and the token codec\<close>

lemma startup_initialised: "startup environ stored = Inr srv \<Longrightarrow> initialised srv"
  by (auto simp: startup_def initialised_def Let_def split: if_splits)

lemma register_initialised:
  "initialised srv \<Longrightarrow> register L W srv user_data = (r, srv') \<Longrightarrow> initialised srv'"
  by (auto simp: register_def initialised_def Let_def split: if_splits option.splits sum.splits)

lemma floor_day: "\<lfloor>x + 86400\<rfloor> = \<lfloor>x\<rfloor> + 86400" for x :: real
  using floor_add_int[of x 86400] by simp

lemma jwt_roundtrip:
  "jwt_decode t (create_access_token srv W data) (SECRET_KEY srv) =
     (if of_int (\<lfloor>now W\<rfloor> + 86400) \<le> t then Inl ExpiredSignatureError
      else Inr \<lparr>claim_sub = payload_sub data, claim_exp = Some (\<lfloor>now W\<rfloor> + 86400)\<rparr>)"
  by (simp add: jwt_decode_def create_access_token_def jwt_encode_def
        ACCESS_TOKEN_EXPIRE_MINUTES_def Let_def floor_day)

lemma find_one_holds: "find_one query docs = Some d \<Longrightarrow> query d"
  by (auto simp: find_one_def find_Some_iff)

lemma make_User_id: "make_User L i n e t = Inr u \<Longrightarrow> User_id u = i"
  by (auto simp: make_User_def split: option.splits)

lemma make_User_loads: "validate_email L e \<noteq> None \<Longrightarrow> \<exists>u. make_User L i n e t = Inr u"
  by (auto simp: make_User_def split: option.splits)

lemma get_current_user_body_loads:
  assumes "subject_loads L srv uid"
    and "jwt_decode (now W') token (SECRET_KEY srv) = Inr c"
    and "claim_sub c = Some uid"
  shows "\<exists>u. get_current_user_body L srv W' token = Inr u \<and> User_id u = uid"
proof (cases "MOCK_AUTH_ENABLED srv")
  case True
  with assms(1) have uid: "uid = MOCK_USER_ID srv"
    and em: "validate_email L (MOCK_USER_EMAIL srv) \<noteq> None"
    by (simp_all add: subject_loads_def)
  from make_User_loads[OF em] obtain u where
    u: "make_User L (MOCK_USER_ID srv) (MOCK_USERNAME srv) (MOCK_USER_EMAIL srv) (now W') = Inr u"
    by blast
  from make_User_id[OF u] u True uid assms(2,3) show ?thesis
    by (simp add: get_current_user_body_def)
next
  case False
  with assms(1) obtain docs d where docs: "db srv = Some docs"
    and d: "find_one (\<lambda>d. doc_id d = uid) docs = Some d"
    and em: "validate_email L (doc_email d) \<noteq> None"
    by (auto simp: subject_loads_def split: option.splits)
  from find_one_holds[OF d] have i: "doc_id d = uid" .
  from make_User_loads[OF em] obtain u where
    u: "make_User L (doc_id d) (doc_username d) (doc_email d) (doc_created_at d) = Inr u"
    by blast
  from make_User_id[OF u] u i False docs d assms(2,3) show ?thesis
    by (simp add: get_current_user_body_def User_of_doc_def)
qed

lemma jwt_decode_errors:
  assumes "jwt_decode t token key = Inl e"
  shows "e = ExpiredSignatureError \<or> e = InvalidTokenError"
  using assms by (auto simp: jwt_decode_def split: jwt.splits if_splits option.splits)

lemma get_current_user_rejects:
  assumes "jwt_decode (now W) token (SECRET_KEY srv) = Inl e"
  shows "\<exists>detail. get_current_user L srv W token = Inl (HTTPException 401 detail)"
  using jwt_decode_errors[OF assms] assms
  by (auto simp: get_current_user_def get_current_user_body_def)

lemma get_current_user_unknown:
  assumes "initialised srv"
    and "jwt_decode (now W) token (SECRET_KEY srv) = Inr c"
    and "claim_sub c = Some uid" and "\<not> known_subject srv uid"
  shows "get_current_user L srv W token = Inl (HTTPException 401 ''User not found'')"
proof (cases "MOCK_AUTH_ENABLED srv")
  case True
  with assms show ?thesis
    by (simp add: get_current_user_def get_current_user_body_def known_subject_def)
next
  case False
  with assms(1) obtain docs where "db srv = Some docs"
    by (auto simp: initialised_def)
  with False assms show ?thesis
    by (simp add: get_current_user_def get_current_user_body_def known_subject_def)
qed

lemma get_current_user_invalid:
  assumes "initialised srv" and "\<not> valid_token srv W token"
  shows "\<exists>detail. get_current_user L srv W token = Inl (HTTPException 401 detail)"
proof (cases "jwt_decode (now W) token (SECRET_KEY srv)")
  case (Inl e)
  from get_current_user_rejects[OF Inl] show ?thesis .
next
  case (Inr c)
  show ?thesis
  proof (cases "claim_sub c")
    case None
    with Inr show ?thesis
      by (simp add: get_current_user_def get_current_user_body_def)
  next
    case (Some uid)
    with Inr assms(2) have "\<not> known_subject srv uid"
      by (simp add: valid_token_def)
    from get_current_user_unknown[OF assms(1) Inr Some this] show ?thesis
      by blast
  qed
qed

subsection \<open>Registration and login\<close>

text \<open>
  C3. Outside mock mode there is a users collection. When it holds a document whose username
  or email equals the one submitted, \<^verbatim>\<open>register\<close> raises the 400 that the service uses
  for a conflict, and the server state, the collection included, is what it was.
\<close>

theorem register_duplicate:
  assumes "initialised srv"
    and "db srv = Some docs"
    and "\<exists>d \<in> set docs. doc_username d = UserCreate_username user_data
                        \<or> doc_email d = UserCreate_email user_data"
  shows "register L W srv user_data =
           (Inl (HTTPException 400 ''Username or email already exists''), srv)"
proof -
  from assms(1,2) have nomock: "\<not> MOCK_AUTH_ENABLED srv"
    by (simp add: initialised_def)
  from assms(3) have "find_one (\<lambda>d. doc_username d = UserCreate_username user_data
                                  \<or> doc_email d = UserCreate_email user_data) docs \<noteq> None"
    by (auto simp: find_one_def find_None_iff)
  then obtain existing where
    "find_one (\<lambda>d. doc_username d = UserCreate_username user_data
                   \<or> doc_email d = UserCreate_email user_data) docs = Some existing"
    by blast
  with nomock assms(2) show ?thesis
    by (simp add: register_def)
qed

theorem register_duplicate_witness:
  "initialised live_server
   \<and> db live_server = Some [\<lparr>doc_id = ''id-ada'', doc_username = ''ada'',
        doc_email = ''ada@example.com'', doc_created_at = 1600000000, doc_password = ''saltpw''\<rparr>]
   \<and> register sample_lib sample_world live_server
        \<lparr>UserCreate_username = ''ada'', UserCreate_email = ''other@example.com'',
         UserCreate_password = ''pw2''\<rparr>
       = (Inl (HTTPException 400 ''Username or email already exists''), live_server)"
proof -
  have h1: "initialised live_server"
    by (simp add: initialised_def live_server_def)
  have h2: "db live_server = Some [\<lparr>doc_id = ''id-ada'', doc_username = ''ada'',
        doc_email = ''ada@example.com'', doc_created_at = 1600000000, doc_password = ''saltpw''\<rparr>]"
    by (simp add: live_server_def)
  have h3: "\<exists>d \<in> set [\<lparr>doc_id = ''id-ada'', doc_username = ''ada'',
        doc_email = ''ada@example.com'', doc_created_at = 1600000000, doc_password = ''saltpw''\<rparr>].
      doc_username d = UserCreate_username \<lparr>UserCreate_username = ''ada'',
          UserCreate_email = ''other@example.com'', UserCreate_password = ''pw2''\<rparr>
      \<or> doc_email d = UserCreate_email \<lparr>UserCreate_username = ''ada'',
          UserCreate_email = ''other@example.com'', UserCreate_password = ''pw2''\<rparr>"
    by simp
  from register_duplicate[OF h1 h2 h3, of sample_lib sample_world] h1 h2
  show ?thesis by simp
qed

lemma login_mock_wrong:
  assumes "MOCK_AUTH_ENABLED srv"
    and "\<not> (UserLogin_username credentials = MOCK_USERNAME srv
            \<and> UserLogin_password credentials = MOCK_PASSWORD srv)"
  shows "login L W srv credentials = Inl (HTTPException 401 ''Invalid credentials'')"
  using assms by (auto simp: login_def)

lemma login_mock_right:
  assumes "MOCK_AUTH_ENABLED srv"
    and "UserLogin_username credentials = MOCK_USERNAME srv"
    and "UserLogin_password credentials = MOCK_PASSWORD srv"
  shows "login L W srv credentials =
           (case validate_email L (MOCK_USER_EMAIL srv) of
              None \<Rightarrow> Inl ValidationError
            | Some a \<Rightarrow>
                Inr \<lparr>access_token = create_access_token srv W
                                       \<lparr>payload_sub = Some (MOCK_USER_ID srv), payload_exp = None\<rparr>,
                     token_type = ''bearer'',
                     user = \<lparr>User_id = MOCK_USER_ID srv, User_username = MOCK_USERNAME srv,
                             User_email = a, User_created_at = now W\<rparr>\<rparr>)"
  using assms by (simp add: login_def make_User_def Let_def split: option.splits)

lemma issued_not_expired: "\<not> real_of_int \<lfloor>t\<rfloor> + 86400 \<le> t"
  by linarith

text \<open>
  C9, as the code has it. In mock mode \<^verbatim>\<open>login\<close> raises 401 for every pair other than
  the configured username and password. For the configured pair it returns a Token (status
  200) whose subject decodes, under the service's key at the time of issue, to the configured
  mock user id, provided the configured \<^verbatim>\<open>MOCK_USER_EMAIL\<close> is an email address; when it
  is not, building the User fails validation and the request is answered 500.
\<close>

theorem mock_login:
  assumes "MOCK_AUTH_ENABLED srv"
  shows "(if UserLogin_username credentials = MOCK_USERNAME srv
             \<and> UserLogin_password credentials = MOCK_PASSWORD srv
          then (if validate_email L (MOCK_USER_EMAIL srv) = None
                then login L W srv credentials = Inl ValidationError
                       \<and> status_code (login L W srv credentials) = 500
                else \<exists>tok c. login L W srv credentials = Inr tok
                       \<and> status_code (login L W srv credentials) = 200
                       \<and> jwt_decode (now W) (access_token tok) (SECRET_KEY srv) = Inr c
                       \<and> claim_sub c = Some (MOCK_USER_ID srv))
          else login L W srv credentials = Inl (HTTPException 401 ''Invalid credentials'')
                 \<and> status_code (login L W srv credentials) = 401)"
proof (cases "UserLogin_username credentials = MOCK_USERNAME srv
             \<and> UserLogin_password credentials = MOCK_PASSWORD srv")
  case False
  from login_mock_wrong[OF assms False] False show ?thesis
    by (simp add: status_code_def)
next
  case True
  then have u: "UserLogin_username credentials = MOCK_USERNAME srv"
    and p: "UserLogin_password credentials = MOCK_PASSWORD srv" by simp_all
  note r = login_mock_right[OF assms u p, of L W]
  show ?thesis
  proof (cases "validate_email L (MOCK_USER_EMAIL srv)")
    case None
    with r True show ?thesis by (simp add: status_code_def)
  next
    case (Some a)
    with r True show ?thesis
      by (simp add: status_code_def jwt_roundtrip issued_not_expired)
  qed
qed

theorem mock_login_witness:
  "MOCK_AUTH_ENABLED mock_server
   \<and> validate_email sample_lib (MOCK_USER_EMAIL mock_server) \<noteq> None
   \<and> (\<exists>tok c.
         login sample_lib sample_world mock_server
            \<lparr>UserLogin_username = ''testuser'', UserLogin_password = ''password123''\<rparr> = Inr tok
         \<and> jwt_decode (now sample_world) (access_token tok) (SECRET_KEY mock_server) = Inr c
         \<and> claim_sub c = Some ''mock-user-123'')
   \<and> login sample_lib sample_world mock_server
         \<lparr>UserLogin_username = ''testuser'', UserLogin_password = ''letmein''\<rparr>
       = Inl (HTTPException 401 ''Invalid credentials'')"
proof -
  have h: "MOCK_AUTH_ENABLED mock_server" by (simp add: mock_server_def)
  have em: "validate_email sample_lib (MOCK_USER_EMAIL mock_server) \<noteq> None"
    by (simp add: validate_email_def sample_lib_def mock_server_def)
  have ok: "UserLogin_username \<lparr>UserLogin_username = ''testuser'', UserLogin_password = ''password123''\<rparr>
              = MOCK_USERNAME mock_server
          \<and> UserLogin_password \<lparr>UserLogin_username = ''testuser'', UserLogin_password = ''password123''\<rparr>
              = MOCK_PASSWORD mock_server"
    by (simp add: mock_server_def)
  have ko: "\<not> (UserLogin_username \<lparr>UserLogin_username = ''testuser'', UserLogin_password = ''letmein''\<rparr>
              = MOCK_USERNAME mock_server
          \<and> UserLogin_password \<lparr>UserLogin_username = ''testuser'', UserLogin_password = ''letmein''\<rparr>
              = MOCK_PASSWORD mock_server)"
    by (simp add: mock_server_def)
  have id: "MOCK_USER_ID mock_server = ''mock-user-123''" by (simp add: mock_server_def)
  from mock_login[OF h, of "\<lparr>UserLogin_username = ''testuser'', UserLogin_password = ''password123''\<rparr>"
         sample_lib sample_world] ok em
  have "\<exists>tok c.
         login sample_lib sample_world mock_server
            \<lparr>UserLogin_username = ''testuser'', UserLogin_password = ''password123''\<rparr> = Inr tok
         \<and> status_code (login sample_lib sample_world mock_server
            \<lparr>UserLogin_username = ''testuser'', UserLogin_password = ''password123''\<rparr>) = 200
         \<and> jwt_decode (now sample_world) (access_token tok) (SECRET_KEY mock_server) = Inr c
         \<and> claim_sub c = Some (MOCK_USER_ID mock_server)"
    by (simp only: if_True if_False)
  with id have one: "\<exists>tok c.
         login sample_lib sample_world mock_server
            \<lparr>UserLogin_username = ''testuser'', UserLogin_password = ''password123''\<rparr> = Inr tok
         \<and> jwt_decode (now sample_world) (access_token tok) (SECRET_KEY mock_server) = Inr c
         \<and> claim_sub c = Some ''mock-user-123''"
    by auto
  from mock_login[OF h, of "\<lparr>UserLogin_username = ''testuser'', UserLogin_password = ''letmein''\<rparr>"
         sample_lib sample_world] ko
  have two: "login sample_lib sample_world mock_server
         \<lparr>UserLogin_username = ''testuser'', UserLogin_password = ''letmein''\<rparr>
       = Inl (HTTPException 401 ''Invalid credentials'')"
    by (simp only: if_False)
  from h em one two show ?thesis by blast
qed

text \<open>
  C9, as stated, fails: with \<^verbatim>\<open>MOCK_USER_EMAIL=admin\<close> the configured username and
  password get a validation error (status 500) and no token.
\<close>

theorem mock_login_admin:
  "MOCK_AUTH_ENABLED admin_server
   \<and> MOCK_USERNAME admin_server = ''testuser'' \<and> MOCK_PASSWORD admin_server = ''password123''
   \<and> login sample_lib sample_world admin_server
        \<lparr>UserLogin_username = ''testuser'', UserLogin_password = ''password123''\<rparr>
       = Inl ValidationError
   \<and> status_code (login sample_lib sample_world admin_server
        \<lparr>UserLogin_username = ''testuser'', UserLogin_password = ''password123''\<rparr>) = 500"
  by (simp add: admin_server_def mock_server_def login_def make_User_def validate_email_def
        status_code_def)

subsection \<open>Token lifetime\<close>

text \<open>
  C4, as the code has it. The expiry written into a token issued at time \<open>T\<close> is \<open>T\<close> plus 24
  hours with the fraction of the second dropped. For a subject the service knows and can
  load, \<^verbatim>\<open>get_current_user\<close> accepts the token at every time before that whole second and
  rejects it with 401 (Token expired) from that second on: so at every time after \<open>T\<close> plus
  24 hours, and already up to one second before it.
\<close>

theorem token_lifetime:
  assumes "subject_loads L srv uid"
    and "now W = T"
    and "token = create_access_token srv W \<lparr>payload_sub = Some uid, payload_exp = None\<rparr>"
  shows "(now W' < of_int \<lfloor>T\<rfloor> + 24 * 3600
            \<longrightarrow> (\<exists>u. get_current_user L srv W' token = Inr u \<and> User_id u = uid))
       \<and> (of_int \<lfloor>T\<rfloor> + 24 * 3600 \<le> now W'
            \<longrightarrow> get_current_user L srv W' token = Inl (HTTPException 401 ''Token expired''))
       \<and> (T + 24 * 3600 < now W'
            \<longrightarrow> get_current_user L srv W' token = Inl (HTTPException 401 ''Token expired''))"
proof -
  have late: "get_current_user L srv W' token = Inl (HTTPException 401 ''Token expired'')"
    if "of_int \<lfloor>T\<rfloor> + 24 * 3600 \<le> now W'"
  proof -
    from that assms(2,3)
    have "jwt_decode (now W') token (SECRET_KEY srv) = Inl ExpiredSignatureError"
      by (simp add: jwt_roundtrip)
    then show ?thesis
      by (simp add: get_current_user_def get_current_user_body_def)
  qed
  have early: "\<exists>u. get_current_user L srv W' token = Inr u \<and> User_id u = uid"
    if "now W' < of_int \<lfloor>T\<rfloor> + 24 * 3600"
  proof -
    from that assms(2,3)
    have "jwt_decode (now W') token (SECRET_KEY srv)
            = Inr \<lparr>claim_sub = Some uid, claim_exp = Some (\<lfloor>now W\<rfloor> + 86400)\<rparr>"
      by (simp add: jwt_roundtrip)
    from get_current_user_body_loads[OF assms(1) this]
    show ?thesis by (auto simp: get_current_user_def)
  qed
  have after: "of_int \<lfloor>T\<rfloor> + 24 * 3600 \<le> now W'" if "T + 24 * 3600 < now W'"
    using that by linarith
  from early late after show ?thesis by blast
qed

theorem token_lifetime_witness:
  "subject_loads sample_lib mock_server ''mock-user-123''
   \<and> now issue_world = 1700000000.9
   \<and> now (sample_world\<lparr>now := 1700086399.9\<rparr>) < of_int \<lfloor>1700000000.9 :: real\<rfloor> + 24 * 3600
   \<and> (\<exists>u. get_current_user sample_lib mock_server (sample_world\<lparr>now := 1700086399.9\<rparr>)
              (create_access_token mock_server issue_world
                 \<lparr>payload_sub = Some ''mock-user-123'', payload_exp = None\<rparr>) = Inr u
           \<and> User_id u = ''mock-user-123'')
   \<and> of_int \<lfloor>1700000000.9 :: real\<rfloor> + 24 * 3600 \<le> now (sample_world\<lparr>now := 1700086400\<rparr>)
   \<and> get_current_user sample_lib mock_server (sample_world\<lparr>now := 1700086400\<rparr>)
        (create_access_token mock_server issue_world
           \<lparr>payload_sub = Some ''mock-user-123'', payload_exp = None\<rparr>)
       = Inl (HTTPException 401 ''Token expired'')"
proof -
  have h1: "subject_loads sample_lib mock_server ''mock-user-123''"
    by (simp add: subject_loads_def mock_server_def validate_email_def sample_lib_def)
  have h2: "now issue_world = 1700000000.9" by (simp add: issue_world_def)
  have f: "\<lfloor>1700000000.9 :: real\<rfloor> = 1700000000" by linarith
  have h3: "now (sample_world\<lparr>now := 1700086399.9\<rparr>) < of_int \<lfloor>1700000000.9 :: real\<rfloor> + 24 * 3600"
    by (simp add: f)
  have h4: "of_int \<lfloor>1700000000.9 :: real\<rfloor> + 24 * 3600 \<le> now (sample_world\<lparr>now := 1700086400\<rparr>)"
    by (simp add: f)
  note t = token_lifetime[OF h1 h2 refl]
  from t[of "sample_world\<lparr>now := 1700086399.9\<rparr>"] t[of "sample_world\<lparr>now := 1700086400\<rparr>"]
    h1 h2 h3 h4
  show ?thesis by blast
qed

text \<open>
  C4, as stated, fails: a token issued at 1700000000.9 carries the expiry 1700086400 and is
  rejected at 1700086400.4, half a second before 24 hours have passed since it was issued.
\<close>

theorem token_expires_early:
  "now late_world < now issue_world + 24 * 3600
   \<and> subject_loads sample_lib mock_server ''mock-user-123''
   \<and> get_current_user sample_lib mock_server late_world
        (create_access_token mock_server issue_world
           \<lparr>payload_sub = Some ''mock-user-123'', payload_exp = None\<rparr>)
       = Inl (HTTPException 401 ''Token expired'')"
proof -
  have f: "\<lfloor>1700000000.9 :: real\<rfloor> = 1700000000" by linarith
  have "jwt_decode (now late_world)
          (create_access_token mock_server issue_world
             \<lparr>payload_sub = Some ''mock-user-123'', payload_exp = None\<rparr>) (SECRET_KEY mock_server)
        = Inl ExpiredSignatureError"
    by (simp add: jwt_roundtrip issue_world_def late_world_def f)
  then have "get_current_user sample_lib mock_server late_world
        (create_access_token mock_server issue_world
           \<lparr>payload_sub = Some ''mock-user-123'', payload_exp = None\<rparr>)
       = Inl (HTTPException 401 ''Token expired'')"
    by (simp add: get_current_user_def get_current_user_body_def)
  moreover have "now late_world < now issue_world + 24 * 3600"
    by (simp add: issue_world_def late_world_def)
  moreover have "subject_loads sample_lib mock_server ''mock-user-123''"
    by (simp add: subject_loads_def mock_server_def validate_email_def sample_lib_def)
  ultimately show ?thesis by blast
qed

subsection \<open>App login\<close>

text \<open>
  C10. When \<^verbatim>\<open>LOC_API_TOKEN\<close> or \<^verbatim>\<open>MYTRIPS_API_BASEURL\<close> is unset (or empty),
  \<^verbatim>\<open>app_login\<close> returns authenticated false with the message
  \<^verbatim>\<open>Authentication service unavailable\<close>, whatever the credentials and the mode: the
  two checks come before the mock branch.
\<close>

theorem app_login_unconfigured:
  assumes "py_not (LOC_API_TOKEN srv) \<or> py_not (MYTRIPS_API_BASEURL srv)"
  shows "app_login L W srv credentials =
           Inr \<lparr>authenticated = False, user_id = None,
                message = Some ''Authentication service unavailable''\<rparr>"
  using assms by (auto simp: app_login_def)

theorem app_login_unconfigured_witness:
  "(py_not (LOC_API_TOKEN mock_server) \<or> py_not (MYTRIPS_API_BASEURL mock_server))
   \<and> MOCK_AUTH_ENABLED mock_server
   \<and> AppLoginRequest_email \<lparr>AppLoginRequest_email = ''testuser@example.com'',
         AppLoginRequest_password = ''password123''\<rparr> = MOCK_USER_EMAIL mock_server
   \<and> AppLoginRequest_password \<lparr>AppLoginRequest_email = ''testuser@example.com'',
         AppLoginRequest_password = ''password123''\<rparr> = MOCK_PASSWORD mock_server
   \<and> app_login sample_lib sample_world mock_server
        \<lparr>AppLoginRequest_email = ''testuser@example.com'', AppLoginRequest_password = ''password123''\<rparr>
       = Inr \<lparr>authenticated = False, user_id = None,
              message = Some ''Authentication service unavailable''\<rparr>"
proof -
  have h: "py_not (LOC_API_TOKEN mock_server) \<or> py_not (MYTRIPS_API_BASEURL mock_server)"
    by (simp add: py_not_def mock_server_def)
  from app_login_unconfigured[OF h, of sample_lib sample_world] h
  show ?thesis by (simp add: mock_server_def)
qed

lemma app_login_try_failure:
  assumes "upstream_failure (upstream W)"
  shows "app_login_try L W = Inl TimeoutException \<or> app_login_try L W = Inl ConnectError
       \<or> app_login_try L W = Inr \<lparr>authenticated = False, user_id = None, message = Some ''Invalid credentials''\<rparr>
       \<or> app_login_try L W = Inr \<lparr>authenticated = False, user_id = None, message = Some ''Authentication service error''\<rparr>"
  using assms
  by (cases "upstream W") (auto simp: upstream_failure_def app_login_try_def httpx_request_def)

text \<open>
  C2. Outside mock mode, when the call to the identity service times out, raises, or is
  answered with a status other than 200, \<^verbatim>\<open>app_login\<close> returns (it raises nothing) a
  response with authenticated false and one of its own messages, which is not empty.
\<close>

theorem app_login_upstream_failure:
  assumes "\<not> MOCK_AUTH_ENABLED srv" and "upstream_failure (upstream W)"
  shows "\<exists>m. app_login L W srv credentials =
               Inr \<lparr>authenticated = False, user_id = None, message = Some m\<rparr>
             \<and> m \<noteq> [] \<and> m \<in> set generic_messages"
  using app_login_try_failure[OF assms(2), of L] assms(1)
  by (auto simp: app_login_def generic_messages_def)

theorem app_login_upstream_failure_witness:
  "\<not> MOCK_AUTH_ENABLED live_server
   \<and> upstream_failure (upstream (sample_world\<lparr>upstream := Timeout\<rparr>))
   \<and> app_login sample_lib (sample_world\<lparr>upstream := Timeout\<rparr>) live_server
        \<lparr>AppLoginRequest_email = ''ada@example.com'', AppLoginRequest_password = ''pw''\<rparr>
       = Inr \<lparr>authenticated = False, user_id = None,
              message = Some ''Authentication service timeout''\<rparr>"
proof -
  have h1: "\<not> MOCK_AUTH_ENABLED live_server" by (simp add: live_server_def)
  have h2: "upstream_failure (upstream (sample_world\<lparr>upstream := Timeout\<rparr>))"
    by (simp add: upstream_failure_def)
  have e: "app_login_try sample_lib (sample_world\<lparr>upstream := Timeout\<rparr>) = Inl TimeoutException"
    by (simp add: app_login_try_def httpx_request_def)
  from app_login_upstream_failure[OF h1 h2, of sample_lib
         "\<lparr>AppLoginRequest_email = ''ada@example.com'', AppLoginRequest_password = ''pw''\<rparr>"]
  obtain m where m: "app_login sample_lib (sample_world\<lparr>upstream := Timeout\<rparr>) live_server
        \<lparr>AppLoginRequest_email = ''ada@example.com'', AppLoginRequest_password = ''pw''\<rparr>
       = Inr \<lparr>authenticated = False, user_id = None, message = Some m\<rparr>"
    by blast
  from m e have "m = ''Authentication service timeout''"
    by (simp add: app_login_def live_server_def py_not_def)
  with m h1 h2 show ?thesis by simp
qed

lemma make_AppLoginResponse_message:
  assumes "make_AppLoginResponse a uid m = Inr r" and "message r = Some s"
  shows "m = JStr s"
  using assms by (cases m) (auto simp: make_AppLoginResponse_def)

lemma app_login_try_message:
  assumes "app_login_try L W = Inr r" and "message r = Some s"
  shows "s \<in> set generic_messages
       \<or> (\<exists>data. upstream W = Response 200 (Some data) \<and> py_get data ''message'' = Inr (Some (JStr s)))"
proof (cases "upstream W")
  case Timeout
  with assms show ?thesis by (simp add: app_login_try_def httpx_request_def)
next
  case NetworkError
  with assms show ?thesis by (simp add: app_login_try_def httpx_request_def)
next
  case (Response code body)
  show ?thesis
  proof (cases "code = 200")
    case False
    with Response assms show ?thesis
      by (auto simp: app_login_try_def httpx_request_def generic_messages_def split: if_splits)
  next
    case True
    with Response assms(1) obtain data u m where body: "body = Some data"
      and m: "py_get data ''message'' = Inr m"
      and r: "make_AppLoginResponse True (Some (py_str L (or_None u)))
                 (or_default m (JStr ''Authentication successful'')) = Inr r
              \<or> make_AppLoginResponse False None
                 (py_or (or_default m (JStr ''Authentication successful''))
                        (JStr ''Invalid email or password'')) = Inr r"
      by (auto simp: app_login_try_def httpx_request_def response_json_def Let_def
            split: option.splits sum.splits if_splits)
    from r assms(2) have
      "or_default m (JStr ''Authentication successful'') = JStr s
       \<or> py_or (or_default m (JStr ''Authentication successful'')) (JStr ''Invalid email or password'') = JStr s"
      by (auto dest: make_AppLoginResponse_message)
    then have "s \<in> set generic_messages \<or> m = Some (JStr s)"
      by (auto simp: or_default_def py_or_def generic_messages_def split: option.splits if_splits)
    with Response True body m show ?thesis by auto
  qed
qed

text \<open>
  C5, as the code has it. \<^verbatim>\<open>app_login\<close> always returns a response. Its message, when
  it has one, is one of the service's own messages or the string that a 200 answer of the
  identity service carries in its \<^verbatim>\<open>message\<close> field; when the upstream outcome is not a
  200 answer, the message is one of the service's own.
\<close>

theorem app_login_message_origin:
  "\<exists>r. app_login L W srv credentials = Inr r
     \<and> (\<forall>s. message r = Some s \<longrightarrow>
           s \<in> set generic_messages
           \<or> (\<exists>data. upstream W = Response 200 (Some data)
                     \<and> py_get data ''message'' = Inr (Some (JStr s))))
     \<and> ((\<forall>body. upstream W \<noteq> Response 200 body) \<longrightarrow>
           (\<exists>s. message r = Some s \<and> s \<in> set generic_messages))"
proof (cases "py_not (LOC_API_TOKEN srv) \<or> py_not (MYTRIPS_API_BASEURL srv) \<or> MOCK_AUTH_ENABLED srv")
  case True
  then show ?thesis
    by (auto simp: app_login_def generic_messages_def)
next
  case False
  note live = False
  show ?thesis
  proof (cases "app_login_try L W")
    case (Inl e)
    with live show ?thesis
      by (cases e) (auto simp: app_login_def generic_messages_def)
  next
    case (Inr r)
    have "(\<forall>body. upstream W \<noteq> Response 200 body) \<longrightarrow>
           (\<exists>s. message r = Some s \<and> s \<in> set generic_messages)"
    proof
      assume n: "\<forall>body. upstream W \<noteq> Response 200 body"
      with Inr show "\<exists>s. message r = Some s \<and> s \<in> set generic_messages"
        by (cases "upstream W")
           (auto simp: app_login_try_def httpx_request_def generic_messages_def split: if_splits)
    qed
    with live Inr app_login_try_message[OF Inr] show ?thesis
      by (auto simp: app_login_def)
  qed
qed

theorem app_login_message_origin_witness:
  "(\<forall>body. upstream sample_world \<noteq> Response 200 body)
   \<and> message \<lparr>authenticated = False, user_id = None, message = Some ''Authentication service error''\<rparr>
       = Some ''Authentication service error''
   \<and> app_login sample_lib sample_world live_server
        \<lparr>AppLoginRequest_email = ''ada@example.com'', AppLoginRequest_password = ''pw''\<rparr>
       = Inr \<lparr>authenticated = False, user_id = None, message = Some ''Authentication service error''\<rparr>
   \<and> ''Authentication service error'' \<in> set generic_messages"
proof -
  have h: "\<forall>body. upstream sample_world \<noteq> Response 200 body"
    by (simp add: sample_world_def)
  have e: "app_login sample_lib sample_world live_server
        \<lparr>AppLoginRequest_email = ''ada@example.com'', AppLoginRequest_password = ''pw''\<rparr>
       = Inr \<lparr>authenticated = False, user_id = None, message = Some ''Authentication service error''\<rparr>"
    by (simp add: app_login_def live_server_def sample_world_def py_not_def
        app_login_try_def httpx_request_def)
  from app_login_message_origin[of sample_lib sample_world live_server
        "\<lparr>AppLoginRequest_email = ''ada@example.com'', AppLoginRequest_password = ''pw''\<rparr>"] h e
  show ?thesis by auto
qed

text \<open>
  C5, as stated, fails: a 200 answer with authenticated false and a message of the identity
  service's own is handed to the caller word for word.
\<close>

theorem app_login_reflects_upstream_message:
  "app_login sample_lib leaking_world live_server
      \<lparr>AppLoginRequest_email = ''ada@example.com'', AppLoginRequest_password = ''pw''\<rparr>
     = Inr \<lparr>authenticated = False, user_id = None,
            message = Some ''pg: relation accounts_v2 is locked''\<rparr>
   \<and> ''pg: relation accounts_v2 is locked'' \<notin> set generic_messages"
  by (simp add: app_login_def live_server_def leaking_world_def sample_world_def py_not_def
        app_login_try_def httpx_request_def response_json_def or_default_def or_None_def py_or_def
        make_AppLoginResponse_def generic_messages_def)

subsection \<open>Trackable users\<close>

lemma TrackableUser_of_ok:
  assumes "TrackableUser_of L u = Inr t"
  shows "user_entry_ok u"
proof (cases u)
  case (JObj kvs)
  show ?thesis
  proof (cases "truthy (or_None (map_of kvs ''display_name''))")
    case True
    with assms JObj have "make_TrackableUser (py_str L (or_None (map_of kvs ''id'')))
        (or_None (map_of kvs ''display_name'')) ''active'' = Inr t"
      by (simp add: TrackableUser_of_def)
    then have "is_str (or_None (map_of kvs ''display_name''))"
      by (cases "or_None (map_of kvs ''display_name'')")
         (simp_all add: make_TrackableUser_def is_str_def)
    with True JObj show ?thesis by (simp add: user_entry_ok_def)
  next
    case False
    with assms JObj have "make_TrackableUser (py_str L (or_None (map_of kvs ''id'')))
        (or_None (map_of kvs ''username'')) ''active'' = Inr t"
      by (simp add: TrackableUser_of_def)
    then have "is_str (or_None (map_of kvs ''username''))"
      by (cases "or_None (map_of kvs ''username'')")
         (simp_all add: make_TrackableUser_def is_str_def)
    with False JObj show ?thesis by (simp add: user_entry_ok_def)
  qed
qed (use assms in \<open>simp_all add: TrackableUser_of_def\<close>)

lemma each_ok:
  assumes "each (TrackableUser_of L) xs = Inr us"
  shows "list_all user_entry_ok xs"
  using assms
proof (induction xs arbitrary: us)
  case Nil
  then show ?case by simp
next
  case (Cons x xs)
  from Cons.prems obtain t ts where t: "TrackableUser_of L x = Inr t"
    and ts: "each (TrackableUser_of L) xs = Inr ts"
    by (auto split: sum.splits)
  from TrackableUser_of_ok[OF t] Cons.IH[OF ts] show ?case by simp
qed

lemma TrackableUser_of_str: "TrackableUser_of L (JStr k) = Inl AttributeError"
  by (simp add: TrackableUser_of_def)

lemma iterated_users:
  assumes "truthy u" and "py_iter u = Inr xs" and "each (TrackableUser_of L) xs = Inr us"
  shows "u = JArr xs \<and> xs \<noteq> [] \<and> list_all user_entry_ok xs"
proof (cases u)
  case (JArr ys)
  with assms each_ok[OF assms(3)] show ?thesis by simp
next
  case (JObj kvs)
  with assms(1) obtain kv rest where "kvs = kv # rest" by (cases kvs) simp_all
  with JObj assms(2,3) show ?thesis by (auto simp: TrackableUser_of_str)
next
  case (JStr s)
  with assms(1) obtain c rest where "s = c # rest" by (cases s) simp_all
  with JStr assms(2,3) show ?thesis by (auto simp: TrackableUser_of_str)
qed (use assms in simp_all)

text \<open>What \<^verbatim>\<open>get_trackable_users_try\<close> returns on a 200 answer whose body is a JSON object
  with status \<^verbatim>\<open>success\<close>.\<close>

lemma users_try_success_body:
  assumes "upstream W = Response 200 (Some (JObj kvs))"
    and "map_of kvs ''status'' = Some (JStr ''success'')"
  shows "get_trackable_users_try L W =
           (case py_get (or_default (map_of kvs ''data'') (JObj [])) ''users'' of
              Inl e \<Rightarrow> Inl e
            | Inr us \<Rightarrow>
                if \<not> truthy (or_None us) then Inr fallback_users
                else (case py_iter (or_None us) of
                        Inl e \<Rightarrow> Inl e
                      | Inr xs \<Rightarrow> each (TrackableUser_of L) xs))"
  using assms
  by (simp add: get_trackable_users_try_def httpx_request_def response_json_def or_None_def)

lemma users_try_other_status:
  assumes "upstream W = Response 200 (Some (JObj kvs))"
    and "map_of kvs ''status'' \<noteq> Some (JStr ''success'')"
  shows "get_trackable_users_try L W = Inr fallback_users"
  using assms
  by (auto simp: get_trackable_users_try_def httpx_request_def response_json_def or_None_def
        split: option.splits)

lemma users_try_not_object:
  assumes "upstream W = Response 200 body" and "\<forall>kvs. body \<noteq> Some (JObj kvs)"
  shows "\<exists>e. get_trackable_users_try L W = Inl e"
proof (cases body)
  case None
  with assms(1) show ?thesis
    by (simp add: get_trackable_users_try_def httpx_request_def response_json_def)
next
  case (Some data)
  with assms(2) have "py_get data ''status'' = Inl AttributeError"
    by (cases data) simp_all
  with Some assms(1) show ?thesis
    by (simp add: get_trackable_users_try_def httpx_request_def response_json_def)
qed

lemma users_try_listing:
  assumes "upstream W = Response 200 body" and "get_trackable_users_try L W = Inr us"
    and "us \<noteq> fallback_users"
  shows "users_listing body \<noteq> None"
proof -
  from users_try_not_object[OF assms(1), of L] assms(2)
  obtain kvs where body: "body = Some (JObj kvs)" by auto
  with assms(1) have up: "upstream W = Response 200 (Some (JObj kvs))" by simp
  from users_try_other_status[OF up, of L] assms(2,3)
  have st: "map_of kvs ''status'' = Some (JStr ''success'')" by auto
  note r = users_try_success_body[OF up st, of L]
  show ?thesis
  proof (cases "map_of kvs ''data''")
    case None
    with r assms(2,3) show ?thesis by (simp add: or_default_def or_None_def)
  next
    case (Some dv)
    show ?thesis
    proof (cases dv)
      case (JObj d)
      show ?thesis
      proof (cases "map_of d ''users''")
        case None
        with r Some JObj assms(2,3) show ?thesis by (simp add: or_default_def or_None_def)
      next
        case (Some u)
        with r \<open>map_of kvs ''data'' = Some dv\<close> JObj assms(2,3)
        have tr: "truthy u"
          by (auto simp: or_default_def or_None_def split: if_splits)
        with r \<open>map_of kvs ''data'' = Some dv\<close> JObj Some assms(2)
        obtain xs where it: "py_iter u = Inr xs" and ea: "each (TrackableUser_of L) xs = Inr us"
          by (auto simp: or_default_def or_None_def split: sum.splits)
        from iterated_users[OF tr it ea] body st \<open>map_of kvs ''data'' = Some dv\<close> JObj Some
        show ?thesis by (simp add: users_listing_def)
      qed
    qed (use r Some assms(2) in \<open>simp_all add: or_default_def\<close>)
  qed
qed

text \<open>Conversely, a listing is mapped entry by entry, without an exception: whenever the
  \<^verbatim>\<open>try\<close> raises, the answer was one of the failures above.\<close>

lemma TrackableUser_of_entry:
  assumes "user_entry_ok u"
  shows "\<exists>t. TrackableUser_of L u = Inr t"
proof (cases u)
  case (JObj kvs)
  show ?thesis
  proof (cases "truthy (or_None (map_of kvs ''display_name''))")
    case True
    with assms JObj obtain s where "or_None (map_of kvs ''display_name'') = JStr s"
      by (cases "or_None (map_of kvs ''display_name'')")
         (simp_all add: user_entry_ok_def is_str_def)
    with True JObj show ?thesis
      by (simp add: TrackableUser_of_def make_TrackableUser_def)
  next
    case False
    with assms JObj obtain s where "or_None (map_of kvs ''username'') = JStr s"
      by (cases "or_None (map_of kvs ''username'')")
         (simp_all add: user_entry_ok_def is_str_def)
    with False JObj show ?thesis
      by (simp add: TrackableUser_of_def make_TrackableUser_def)
  qed
qed (use assms in \<open>simp_all add: user_entry_ok_def\<close>)

lemma each_entries:
  assumes "list_all user_entry_ok xs"
  shows "\<exists>us. each (TrackableUser_of L) xs = Inr us \<and> length us = length xs"
  using assms
proof (induction xs)
  case Nil
  then show ?case by simp
next
  case (Cons x xs)
  then obtain t us where "TrackableUser_of L x = Inr t"
    and "each (TrackableUser_of L) xs = Inr us" and "length us = length xs"
    using TrackableUser_of_entry[of x L] by auto
  then show ?case by simp
qed

lemma users_try_maps_listing:
  assumes "upstream W = Response 200 body" and "users_listing body = Some xs"
  shows "\<exists>us. get_trackable_users_try L W = Inr us \<and> length us = length xs \<and> us \<noteq> []"
proof -
  from assms(2) obtain kvs d where body: "body = Some (JObj kvs)"
    and st: "map_of kvs ''status'' = Some (JStr ''success'')"
    and dv: "map_of kvs ''data'' = Some (JObj d)"
    and us: "map_of d ''users'' = Some (JArr xs)"
    and ne: "xs \<noteq> []" and ok: "list_all user_entry_ok xs"
    by (auto simp: users_listing_def split: option.splits json.splits if_splits)
  from assms(1) body have up: "upstream W = Response 200 (Some (JObj kvs))" by simp
  from each_entries[OF ok, of L] obtain ys where
    ys: "each (TrackableUser_of L) xs = Inr ys" "length ys = length xs" by blast
  with ne have "ys \<noteq> []" by auto
  with users_try_success_body[OF up st, of L] dv us ne ys show ?thesis
    by (simp add: or_default_def or_None_def)
qed

lemma users_try_raises:
  assumes "get_trackable_users_try L W = Inl e"
  shows "users_upstream_failure (upstream W)"
proof (cases "upstream W")
  case (Response code body)
  show ?thesis
  proof (cases "code = 200 \<and> users_listing body \<noteq> None")
    case True
    then obtain xs where "users_listing body = Some xs" by auto
    from users_try_maps_listing[OF _ this, of W L] Response True assms show ?thesis by simp
  next
    case False
    with Response show ?thesis by (auto simp: users_upstream_failure_def)
  qed
qed (simp_all add: users_upstream_failure_def)

lemma get_trackable_users_try_failure:
  assumes "users_upstream_failure (upstream W)"
  shows "get_trackable_users_try L W = Inr fallback_users \<or> (\<exists>e. get_trackable_users_try L W = Inl e)"
proof (cases "upstream W")
  case Timeout
  then show ?thesis by (simp add: get_trackable_users_try_def httpx_request_def)
next
  case NetworkError
  then show ?thesis by (simp add: get_trackable_users_try_def httpx_request_def)
next
  case (Response code body)
  show ?thesis
  proof (cases "code = 200")
    case False
    with Response show ?thesis by (simp add: get_trackable_users_try_def httpx_request_def)
  next
    case True
    with Response assms have none: "users_listing body = None"
      by (simp add: users_upstream_failure_def)
    from Response True have up: "upstream W = Response 200 body" by simp
    show ?thesis
    proof (cases "get_trackable_users_try L W")
      case (Inl e)
      then show ?thesis by blast
    next
      case (Inr us)
      with users_try_listing[OF up Inr] none show ?thesis by auto
    qed
  qed
qed

text \<open>
  C7. When the Location API is called and the call times out, raises, is answered with a
  status other than 200, or is answered with a 200 that lists no users (among them every
  body on which the handler itself raises), \<^verbatim>\<open>get_trackable_users\<close> returns (status 200)
  the fallback list, which is not empty.
\<close>

theorem users_fallback:
  assumes "\<not> use_mock_data srv" and "users_upstream_failure (upstream W)"
  shows "get_trackable_users L W srv = Inr fallback_users
       \<and> status_code (get_trackable_users L W srv) = 200
       \<and> fallback_users \<noteq> []"
  using get_trackable_users_try_failure[OF assms(2), of L] assms(1)
  by (auto simp: get_trackable_users_def status_code_def fallback_users_def)

theorem users_fallback_witness:
  "\<not> use_mock_data live_server
   \<and> users_upstream_failure (upstream sample_world)
   \<and> users_upstream_failure (upstream (sample_world\<lparr>upstream := Response 200 None\<rparr>))
   \<and> users_upstream_failure (upstream (sample_world\<lparr>upstream := Response 200
        (Some (JObj [(''status'', JStr ''success''),
                     (''data'', JObj [(''users'', JArr [JObj [(''id'', JInt 7)]])])]))\<rparr>))
   \<and> get_trackable_users sample_lib sample_world live_server = Inr fallback_users
   \<and> get_trackable_users sample_lib (sample_world\<lparr>upstream := Response 200 None\<rparr>) live_server
       = Inr fallback_users
   \<and> get_trackable_users sample_lib (sample_world\<lparr>upstream := Response 200
        (Some (JObj [(''status'', JStr ''success''),
                     (''data'', JObj [(''users'', JArr [JObj [(''id'', JInt 7)]])])]))\<rparr>) live_server
       = Inr fallback_users
   \<and> length fallback_users = 2"
proof -
  have h1: "\<not> use_mock_data live_server"
    by (simp add: use_mock_data_def live_server_def py_not_def)
  have h2: "users_upstream_failure (upstream sample_world)"
    by (simp add: users_upstream_failure_def sample_world_def)
  have h3: "users_upstream_failure (upstream (sample_world\<lparr>upstream := Response 200 None\<rparr>))"
    by (simp add: users_upstream_failure_def users_listing_def)
  have h4: "users_upstream_failure (upstream (sample_world\<lparr>upstream := Response 200
        (Some (JObj [(''status'', JStr ''success''),
                     (''data'', JObj [(''users'', JArr [JObj [(''id'', JInt 7)]])])]))\<rparr>))"
    by (simp add: users_upstream_failure_def users_listing_def user_entry_ok_def or_None_def
          is_str_def)
  have n: "length fallback_users = 2" by (simp add: fallback_users_def)
  from users_fallback[OF h1 h2, of sample_lib] users_fallback[OF h1 h3, of sample_lib]
    users_fallback[OF h1 h4, of sample_lib] h1 h2 h3 h4 n
  show ?thesis by blast
qed

subsection \<open>Route history\<close>

lemma history_loop_lengths:
  "history_loop L W locations (cs, ts) = Inr (cs', ts') \<Longrightarrow> length cs = length ts
     \<Longrightarrow> length cs' = length ts'"
proof (induction locations arbitrary: cs ts)
  case Nil
  then show ?case by simp
next
  case (Cons location rest)
  from Cons.prems(1) obtain la lo st where
    "history_loop L W rest (cs @ [coordinate (or_None la) (or_None lo)],
        ts @ [isoformat L (parse_server_time L W (or_None st))]) = Inr (cs', ts')"
    by (auto split: sum.splits)
  from Cons.IH[OF this] Cons.prems(2) show ?case by simp
qed

lemma mock_history_loop_lengths:
  "mock_history_loop L W idx (cs, ts) = (cs', ts') \<Longrightarrow> length cs = length ts
     \<Longrightarrow> length cs' = length ts'"
  by (induction idx arbitrary: cs ts) auto

lemma fallback_history_loop_lengths:
  "fallback_history_loop L W idx (cs, ts) = (cs', ts') \<Longrightarrow> length cs = length ts
     \<Longrightarrow> length cs' = length ts'"
  by (induction idx arbitrary: cs ts) auto

lemma fallback_history_lengths:
  "length (coordinates (fallback_history L W uid)) = length (timestamps (fallback_history L W uid))"
proof -
  obtain cs ts where e: "fallback_history_loop L W [0..<20] ([], []) = (cs, ts)"
    by (cases "fallback_history_loop L W [0..<20] ([], [])")
  from fallback_history_loop_lengths[OF e] show ?thesis
    unfolding fallback_history_def e by simp
qed

lemma get_route_history_try_lengths:
  assumes "get_route_history_try L W uid = Inr (Some r)"
  shows "length (coordinates r) = length (timestamps r)"
proof -
  from assms obtain locations cs ts where
    loop: "history_loop L W locations ([], []) = Inr (cs, ts)"
    and r: "r = \<lparr>RouteHistory_user_id = uid, coordinates = cs, timestamps = ts\<rparr>"
    unfolding get_route_history_try_def
    by (auto split: sum.splits prod.splits if_splits)
  from history_loop_lengths[OF loop] r show ?thesis by simp
qed

text \<open>
  C6. \<^verbatim>\<open>get_route_history\<close> always returns a RouteHistory, and on every path (mock,
  proxied with timestamps that parse or not, both fallbacks) it has as many coordinates as
  timestamps.
\<close>

theorem route_history_lengths:
  "\<exists>r. get_route_history L W srv uid limit date_from date_to = Inr r
       \<and> length (coordinates r) = length (timestamps r)"
proof (cases "use_mock_data srv")
  case True
  obtain cs ts where e: "mock_history_loop L W [0..<20] ([], []) = (cs, ts)"
    by (cases "mock_history_loop L W [0..<20] ([], [])")
  from mock_history_loop_lengths[OF e] True show ?thesis
    unfolding get_route_history_def e by simp
next
  case False
  show ?thesis
  proof (cases "get_route_history_try L W uid")
    case (Inl e)
    with False show ?thesis
      by (simp add: get_route_history_def fallback_history_lengths)
  next
    case (Inr opt)
    show ?thesis
    proof (cases opt)
      case None
      with Inr False show ?thesis
        by (simp add: get_route_history_def fallback_history_lengths)
    next
      case (Some r)
      with Inr have "get_route_history_try L W uid = Inr (Some r)" by simp
      from get_route_history_try_lengths[OF this] Inr Some False show ?thesis
        by (simp add: get_route_history_def)
    qed
  qed
qed

subsection \<open>Latest location\<close>

lemma rounds_mono: "rounds L \<Longrightarrow> x \<le> y \<Longrightarrow> fl L x \<le> fl L y"
  by (simp add: rounds_def)

lemma rounds_idem: "rounds L \<Longrightarrow> fl L (fl L x) = fl L x"
  by (simp add: rounds_def)

lemma rounds_minus: "rounds L \<Longrightarrow> fl L (- x) = - fl L x"
  by (simp add: rounds_def)

lemma rounds_double: "rounds L \<Longrightarrow> fl L (2 * fl L x) = 2 * fl L x"
  by (simp add: rounds_def)

lemma rounds_zero: "rounds L \<Longrightarrow> fl L 0 = 0"
  using rounds_minus[of L 0] by simp

lemma rounds_nonneg: "rounds L \<Longrightarrow> 0 \<le> x \<Longrightarrow> 0 \<le> fl L x"
  using rounds_mono[of L 0 x] rounds_zero[of L] by simp

text \<open>The drift \<^verbatim>\<open>random.uniform(-h, h)\<close> for a double \<open>h\<close> that is not negative.\<close>

lemma drift_bound:
  assumes r: "rounds L" and u: "0 \<le> u" "u < 1" and h: "h = fl L x" "0 \<le> h"
  shows "- h \<le> uniform L (- h) h u \<and> uniform L (- h) h u \<le> h"
proof -
  have s: "fsub L h (- h) = 2 * h"
    using rounds_double[OF r, of x] h(1) by (simp add: fsub_def)
  have "0 \<le> 2 * h * u" and "2 * h * u \<le> 2 * h"
    using u h(2) by (simp_all add: mult_left_le)
  with rounds_mono[OF r, of 0 "2 * h * u"] rounds_mono[OF r, of "2 * h * u" "2 * h"]
    rounds_zero[OF r] rounds_double[OF r, of x] h(1)
  have p: "0 \<le> fmul L (2 * h) u" "fmul L (2 * h) u \<le> 2 * h"
    by (simp_all add: fmul_def)
  have hh: "fl L h = h" using rounds_idem[OF r, of x] h(1) by simp
  from p rounds_mono[OF r, of "- h" "- h + fmul L (2 * h) u"]
    rounds_mono[OF r, of "- h + fmul L (2 * h) u" h] rounds_minus[OF r, of h] hh
  show ?thesis by (simp add: uniform_def fadd_def s)
qed

lemma drift_half:
  assumes r: "rounds L" and h: "h = fl L x"
  shows "uniform L (- h) h (1 / 2) = 0"
proof -
  have s: "fsub L h (- h) = 2 * h"
    using rounds_double[OF r, of x] h by (simp add: fsub_def)
  have hh: "fl L h = h" using rounds_idem[OF r, of x] h by simp
  then have "fmul L (2 * h) (1 / 2) = h" by (simp add: fmul_def)
  with s rounds_zero[OF r] show ?thesis by (simp add: uniform_def fadd_def)
qed

lemma mock_location_step:
  assumes "use_mock_data srv" and "location_state srv uid = Some q"
  shows "\<exists>d srv'. get_user_location L W srv uid = (Inr d, srv')
           \<and> lat d = fl L (pos_lat q + uniform L (- lit L 0.0005) (lit L 0.0005) (random_random W 0))"
  using assms by (simp add: get_user_location_def mock_location_def Let_def fadd_def)

lemma mock_location_first:
  assumes "use_mock_data srv"
  shows "\<exists>d srv' q. get_user_location L W srv uid = (Inr d, srv') \<and> use_mock_data srv'
           \<and> location_state srv' uid = Some q \<and> lat d = pos_lat q \<and> pos_lat q \<in> range (fl L)"
proof (cases "location_state srv uid")
  case None
  with assms show ?thesis
    by (simp add: get_user_location_def mock_location_def Let_def use_mock_data_def fadd_def)
next
  case (Some q)
  with assms show ?thesis
    by (simp add: get_user_location_def mock_location_def Let_def use_mock_data_def fadd_def)
qed

text \<open>
  C8, as the code has it. In mock mode two successive requests for one id both return a
  location. The second latitude is the first plus the drift drawn for the second request,
  rounded to a double. The drift is a double between -0.0005 and 0.0005 (the doubles of these
  literals), so the second latitude lies between the doubles nearest to the first latitude
  minus and plus 0.0005. When the value of \<^verbatim>\<open>random()\<close> behind the drift is one half the
  drift is zero and the second latitude is the first one, bit for bit.
\<close>

theorem mock_location_drift:
  assumes "rounds L" and "MOCK_AUTH_ENABLED srv"
    and "0 \<le> random_random W2 0" and "random_random W2 0 < 1"
  shows "\<exists>d1 d2 drift. twice L W1 W2 srv uid = (Inr d1, Inr d2)
           \<and> drift = uniform L (- lit L 0.0005) (lit L 0.0005) (random_random W2 0)
           \<and> lat d2 = fl L (lat d1 + drift)
           \<and> - lit L 0.0005 \<le> drift \<and> drift \<le> lit L 0.0005
           \<and> fl L (lat d1 - lit L 0.0005) \<le> lat d2 \<and> lat d2 \<le> fl L (lat d1 + lit L 0.0005)
           \<and> (random_random W2 0 = 1 / 2 \<longrightarrow> lat d2 = lat d1)"
proof -
  from assms(2) have "use_mock_data srv" by (simp add: use_mock_data_def)
  from mock_location_first[OF this, of L W1 uid] obtain d1 srv1 q where
    one: "get_user_location L W1 srv uid = (Inr d1, srv1)" and m: "use_mock_data srv1"
    and q: "location_state srv1 uid = Some q" and l1: "lat d1 = pos_lat q"
    and "pos_lat q \<in> range (fl L)"
    by blast
  then obtain z where z: "pos_lat q = fl L z" by blast
  define drift where "drift = uniform L (- lit L 0.0005) (lit L 0.0005) (random_random W2 0)"
  from mock_location_step[OF m q, of L W2] obtain d2 srv2 where
    two: "get_user_location L W2 srv1 uid = (Inr d2, srv2)"
    and l2: "lat d2 = fl L (lat d1 + drift)"
    by (auto simp: l1 drift_def)
  from one two have t: "twice L W1 W2 srv uid = (Inr d1, Inr d2)"
    by (simp add: twice_def)
  have h0: "0 \<le> lit L 0.0005"
    using rounds_nonneg[OF assms(1), of "0.0005"] by (simp add: lit_def)
  from drift_bound[OF assms(1,3,4) _ h0, of "0.0005"]
  have b: "- lit L 0.0005 \<le> drift" "drift \<le> lit L 0.0005"
    by (simp_all add: drift_def lit_def)
  from b rounds_mono[OF assms(1), of "lat d1 - lit L 0.0005" "lat d1 + drift"]
    rounds_mono[OF assms(1), of "lat d1 + drift" "lat d1 + lit L 0.0005"] l2
  have br: "fl L (lat d1 - lit L 0.0005) \<le> lat d2" "lat d2 \<le> fl L (lat d1 + lit L 0.0005)"
    by simp_all
  have same: "lat d2 = lat d1" if "random_random W2 0 = 1 / 2"
  proof -
    from drift_half[OF assms(1), of "lit L 0.0005" "0.0005"]
    have "uniform L (- lit L 0.0005) (lit L 0.0005) (1 / 2) = 0"
      by (simp add: lit_def)
    then have "drift = 0" by (simp only: drift_def that)
    with l2 l1 z rounds_idem[OF assms(1), of z] show ?thesis by simp
  qed
  from t l2 b br same show ?thesis
    unfolding drift_def by blast
qed

theorem mock_location_drift_witness:
  "rounds sample_lib
   \<and> MOCK_AUTH_ENABLED mock_server
   \<and> 0 \<le> random_random (sample_world\<lparr>random_random := (\<lambda>n. 3 / 4)\<rparr>) 0
   \<and> random_random (sample_world\<lparr>random_random := (\<lambda>n. 3 / 4)\<rparr>) 0 < 1
   \<and> (\<exists>d1 d2. twice sample_lib sample_world (sample_world\<lparr>random_random := (\<lambda>n. 3 / 4)\<rparr>)
                  mock_server ''user-42'' = (Inr d1, Inr d2)
         \<and> lat d2 \<le> fl sample_lib (lat d1 + lit sample_lib 0.0005))"
proof -
  have h0: "rounds sample_lib" by (simp add: rounds_def sample_lib_def)
  have h1: "MOCK_AUTH_ENABLED mock_server" by (simp add: mock_server_def)
  have h2: "0 \<le> random_random (sample_world\<lparr>random_random := (\<lambda>n. 3 / 4)\<rparr>) 0" by simp
  have h3: "random_random (sample_world\<lparr>random_random := (\<lambda>n. 3 / 4)\<rparr>) 0 < 1" by simp
  from mock_location_drift[OF h0 h1 h2 h3, of sample_world "''user-42''"]
  have "\<exists>d1 d2. twice sample_lib sample_world (sample_world\<lparr>random_random := (\<lambda>n. 3 / 4)\<rparr>)
                  mock_server ''user-42'' = (Inr d1, Inr d2)
         \<and> lat d2 \<le> fl sample_lib (lat d1 + lit sample_lib 0.0005)"
    by blast
  with h0 h1 h2 h3 show ?thesis by blast
qed

text \<open>
  C8, as stated, fails for the draw one half: the second response repeats the latitude of the
  first.
\<close>

theorem mock_location_identical:
  "twice sample_lib sample_world sample_world mock_server ''user-42'' =
     (Inr \<lparr>LocationData_user_id = ''user-42'', lat = 40.7589, lng = - 73.9851,
            timestamp = 1700000000, speed = Some 40, heading = Some 180\<rparr>,
      Inr \<lparr>LocationData_user_id = ''user-42'', lat = 40.7589, lng = - 73.9851,
            timestamp = 1700000000, speed = Some 40, heading = Some 180\<rparr>)"
  by (simp add: twice_def get_user_location_def use_mock_data_def mock_server_def sample_world_def
        mock_location_def uniform_def py_mod_def Let_def fadd_def fsub_def fmul_def lit_def
        sample_lib_def)

subsection \<open>Which routes check the bearer token\<close>

lemma get_trackable_users_returns: "\<exists>us. get_trackable_users L W srv = Inr us"
  by (simp add: get_trackable_users_def split: sum.splits)

lemma mock_location_returns: "\<exists>r srv'. mock_location L W srv uid = (Inr r, srv')"
  by (simp add: mock_location_def Let_def)

lemma fallback_location_returns: "\<exists>r srv'. fallback_location L W srv uid = (Inr r, srv')"
  by (simp add: fallback_location_def Let_def)

lemma get_user_location_returns: "\<exists>r srv'. get_user_location L W srv uid = (Inr r, srv')"
  using mock_location_returns[of L W srv uid] fallback_location_returns[of L W srv uid]
  by (auto simp: get_user_location_def split: sum.splits option.splits)

lemma get_route_history_returns: "\<exists>r. get_route_history L W srv uid limit date_from date_to = Inr r"
  by (simp add: get_route_history_def split: sum.splits option.splits prod.splits)

lemma api_ignores_bearer:
  assumes "req \<noteq> GET_auth_me"
  shows "api L W srv bearer req = api L W srv None req"
  using assms by (cases req) (simp_all add: api_def)

lemma me_without_token:
  "fst (api L W srv None GET_auth_me)
     = Inl (HTTPException (if HTTPBearer_401 L then 401 else 403) ''Not authenticated'')"
  by (simp add: api_def security_def)

text \<open>
  C1, as the code has it. The handlers of GET users, GET location and GET history take no
  credentials: each answers 200. No route but GET auth/me reads the bearer token: register,
  login, app-login, routes, users, location and history answer the same whatever token the
  request carries or lacks. GET auth/me refuses every request without a valid token: with
  401 when the token presented is not valid, with 403 (401 from newer releases of FastAPI)
  when none is presented.
\<close>

theorem proxy_routes_unauthenticated:
  "(req = GET_users \<or> req = GET_location uid \<or> req = GET_history uid limit date_from date_to
      \<longrightarrow> status_code (fst (api L W srv bearer req)) = 200)
   \<and> (req \<noteq> GET_auth_me \<longrightarrow> api L W srv bearer req = api L W srv None req)
   \<and> status_code (fst (api L W srv None GET_auth_me)) = (if HTTPBearer_401 L then 401 else 403)
   \<and> (initialised srv \<and> \<not> valid_token srv W token
      \<longrightarrow> status_code (fst (api L W srv (Some token) GET_auth_me)) = 401)"
proof (intro conjI impI)
  assume "req = GET_users \<or> req = GET_location uid \<or> req = GET_history uid limit date_from date_to"
  then consider "req = GET_users" | "req = GET_location uid"
    | "req = GET_history uid limit date_from date_to" by blast
  then show "status_code (fst (api L W srv bearer req)) = 200"
  proof cases
    case 1
    with get_trackable_users_returns[of L W srv] show ?thesis
      by (auto simp: api_def respond_def status_code_def)
  next
    case 2
    with get_user_location_returns[of L W srv uid] show ?thesis
      by (auto simp: api_def respond_def status_code_def)
  next
    case 3
    with get_route_history_returns[of L W srv uid limit date_from date_to] show ?thesis
      by (auto simp: api_def respond_def status_code_def)
  qed
next
  assume "req \<noteq> GET_auth_me"
  then show "api L W srv bearer req = api L W srv None req"
    by (rule api_ignores_bearer)
next
  show "status_code (fst (api L W srv None GET_auth_me)) = (if HTTPBearer_401 L then 401 else 403)"
    by (simp add: me_without_token status_code_def)
next
  assume "initialised srv \<and> \<not> valid_token srv W token"
  then have "\<exists>detail. get_current_user L srv W token = Inl (HTTPException 401 detail)"
    using get_current_user_invalid[of srv W token L] by blast
  then show "status_code (fst (api L W srv (Some token) GET_auth_me)) = 401"
    by (auto simp: api_def security_def status_code_def)
qed

theorem proxy_routes_unauthenticated_witness:
  "initialised live_server
   \<and> \<not> valid_token live_server sample_world (Garbage ''not-a-token'')
   \<and> status_code (fst (api sample_lib sample_world live_server (Some (Garbage ''not-a-token'')) GET_users)) = 200
   \<and> GET_users \<noteq> GET_auth_me
   \<and> api sample_lib sample_world live_server (Some (Garbage ''not-a-token'')) GET_users
       = api sample_lib sample_world live_server None GET_users
   \<and> status_code (fst (api sample_lib sample_world live_server None GET_auth_me)) = 403
   \<and> status_code (fst (api sample_lib sample_world live_server (Some (Garbage ''not-a-token'')) GET_auth_me)) = 401"
proof -
  have h1: "initialised live_server" by (simp add: initialised_def live_server_def)
  have h2: "\<not> valid_token live_server sample_world (Garbage ''not-a-token'')"
    by (simp add: valid_token_def jwt_decode_def)
  have h3: "GET_users \<noteq> GET_auth_me" by simp
  have h4: "\<not> HTTPBearer_401 sample_lib" by (simp add: sample_lib_def)
  note t = proxy_routes_unauthenticated[of GET_users "''user-42''" 100 None None
         sample_lib sample_world live_server "Some (Garbage ''not-a-token'')" "Garbage ''not-a-token''"]
  from t have a: "status_code (fst (api sample_lib sample_world live_server
         (Some (Garbage ''not-a-token'')) GET_users)) = 200"
    by blast
  from t h3 have b: "api sample_lib sample_world live_server (Some (Garbage ''not-a-token'')) GET_users
       = api sample_lib sample_world live_server None GET_users"
    by blast
  from t have "status_code (fst (api sample_lib sample_world live_server None GET_auth_me))
       = (if HTTPBearer_401 sample_lib then 401 else 403)"
    by blast
  with h4 have c: "status_code (fst (api sample_lib sample_world live_server None GET_auth_me)) = 403"
    by simp
  from t h1 h2 have d: "status_code (fst (api sample_lib sample_world live_server
         (Some (Garbage ''not-a-token'')) GET_auth_me)) = 401"
    by blast
  from h1 h2 h3 a b c d show ?thesis by blast
qed

text \<open>
  C1, as stated, fails: in mock mode as with the Location API configured, a request without
  any bearer token to GET users, GET location or GET history is answered 200, not 401.
\<close>

theorem proxy_routes_without_token:
  "fst (api sample_lib sample_world mock_server None GET_users) = Inr (UsersBody mock_users)
   \<and> status_code (fst (api sample_lib sample_world mock_server None GET_users)) = 200
   \<and> status_code (fst (api sample_lib sample_world mock_server None (GET_location ''user-42''))) = 200
   \<and> status_code (fst (api sample_lib sample_world mock_server None (GET_history ''user-42'' 100 None None))) = 200
   \<and> status_code (fst (api sample_lib sample_world live_server None GET_users)) = 200"
  by (simp add: api_def respond_def status_code_def get_trackable_users_def use_mock_data_def
        mock_server_def live_server_def py_not_def get_user_location_def mock_location_def
        get_route_history_def get_trackable_users_try_def httpx_request_def sample_world_def
        Let_def split: prod.splits)

end
